theory Spec2Isabelle
  imports Complex_Main "HOL-Library.Multiset"
begin

section \<open>The Hardhat platform of crytic-compile\<close>

text \<open>
  A shallow embedding of \<^verbatim>\<open>crytic_compile/platform/hardhat.py\<close>. The class
  \<^verbatim>\<open>Hardhat\<close> reads the build-info files that \<^verbatim>\<open>hardhat compile\<close> leaves on
  disk and fills one compilation unit per file. Python values that come out of
  \<^verbatim>\<open>json.load\<close> are values of the datatype \<open>json\<close>; every exception the
  code can raise is a value of the datatype \<open>error\<close>; the objects the code mutates
  are records that each function takes and returns.
\<close>

subsection \<open>Python values\<close>

text \<open>
  What \<^verbatim>\<open>json.load\<close> returns: \<^verbatim>\<open>None\<close>, a bool, an int, a float, a str,
  a list or a dict with string keys. A dict is the list of its items in
  insertion order; the decoder never produces a key twice. The same type stands
  for the values of the keyword arguments.
\<close>

datatype json =
    JNull
  | JBool bool
  | JInt int
  | JFloat real
  | JStr string
  | JArr "json list"
  | JObj "(string \<times> json) list"

text \<open>
  The exceptions. \<open>InvalidCompilation\<close> is the only one the platform raises
  itself; the others come from the Python operations it uses. \<open>ValueError\<close> is
  what the JSON decoder raises (\<^verbatim>\<open>JSONDecodeError\<close> is a subclass of it).
  \<open>DuplicateUnitId\<close> belongs to the constructor of the compilation unit.
\<close>

datatype error =
    InvalidCompilation string
  | KeyError string
  | TypeError
  | AttributeError
  | ValueError
  | FileNotFoundError
  | OSError
  | DuplicateUnitId string

text \<open>Truth value of a Python object, as \<^verbatim>\<open>if x:\<close> takes it.\<close>

fun truthy :: "json \<Rightarrow> bool" where
  "truthy JNull = False"
| "truthy (JBool b) = b"
| "truthy (JInt i) = (i \<noteq> 0)"
| "truthy (JFloat r) = (r \<noteq> 0)"
| "truthy (JStr s) = (s \<noteq> [])"
| "truthy (JArr xs) = (xs \<noteq> [])"
| "truthy (JObj kvs) = (kvs \<noteq> [])"

text \<open>
  \<^verbatim>\<open>x[k]\<close> with a string \<open>k\<close>: a lookup in a dict, \<^verbatim>\<open>KeyError\<close> when the key
  is missing, \<^verbatim>\<open>TypeError\<close> on every other kind of value.
\<close>

fun getitem :: "json \<Rightarrow> string \<Rightarrow> error + json" where
  "getitem (JObj kvs) k = (case map_of kvs k of None \<Rightarrow> Inl (KeyError k) | Some v \<Rightarrow> Inr v)"
| "getitem JNull k = Inl TypeError"
| "getitem (JBool b) k = Inl TypeError"
| "getitem (JInt i) k = Inl TypeError"
| "getitem (JFloat r) k = Inl TypeError"
| "getitem (JStr s) k = Inl TypeError"
| "getitem (JArr xs) k = Inl TypeError"

text \<open>\<^verbatim>\<open>x[k1][k2]...\<close>, left to right.\<close>

fun getpath :: "json \<Rightarrow> string list \<Rightarrow> error + json" where
  "getpath j [] = Inr j"
| "getpath j (k # ks) = (case getitem j k of Inl e \<Rightarrow> Inl e | Inr v \<Rightarrow> getpath v ks)"

text \<open>Whether \<open>k\<close> occurs in \<open>s\<close> as a contiguous piece (\<^verbatim>\<open>k in s\<close> on two strings).\<close>

fun substring :: "string \<Rightarrow> string \<Rightarrow> bool" where
  "substring k [] = (k = [])"
| "substring k (c # cs) = (take (length k) (c # cs) = k \<or> substring k cs)"

text \<open>
  \<^verbatim>\<open>k in x\<close> with a string \<open>k\<close>: key membership in a dict, element membership in
  a list, substring test on a str, \<^verbatim>\<open>TypeError\<close> on a value that is not iterable.
\<close>

fun contains :: "string \<Rightarrow> json \<Rightarrow> error + bool" where
  "contains k (JObj kvs) = Inr (k \<in> set (map fst kvs))"
| "contains k (JArr xs) = Inr (JStr k \<in> set xs)"
| "contains k (JStr s) = Inr (substring k s)"
| "contains k JNull = Inl TypeError"
| "contains k (JBool b) = Inl TypeError"
| "contains k (JInt i) = Inl TypeError"
| "contains k (JFloat r) = Inl TypeError"

text \<open>\<^verbatim>\<open>x.items()\<close>: only a dict has the method.\<close>

fun items :: "json \<Rightarrow> error + (string \<times> json) list" where
  "items (JObj kvs) = Inr kvs"
| "items JNull = Inl AttributeError"
| "items (JBool b) = Inl AttributeError"
| "items (JInt i) = Inl AttributeError"
| "items (JFloat r) = Inl AttributeError"
| "items (JStr s) = Inl AttributeError"
| "items (JArr xs) = Inl AttributeError"

text \<open>\<^verbatim>\<open>x.get(k, d)\<close>: only a dict has the method.\<close>

fun dict_get :: "json \<Rightarrow> string \<Rightarrow> json \<Rightarrow> error + json" where
  "dict_get (JObj kvs) k d = Inr (case map_of kvs k of None \<Rightarrow> d | Some v \<Rightarrow> v)"
| "dict_get JNull k d = Inl AttributeError"
| "dict_get (JBool b) k d = Inl AttributeError"
| "dict_get (JInt i) k d = Inl AttributeError"
| "dict_get (JFloat r) k d = Inl AttributeError"
| "dict_get (JStr s) k d = Inl AttributeError"
| "dict_get (JArr xs) k d = Inl AttributeError"

text \<open>
  \<^verbatim>\<open>s.split(sep)\<close> for a separator of one character: the pieces between the
  occurrences of the separator, empty pieces kept, so that a string with \<open>n\<close>
  separators gives \<open>n + 1\<close> pieces and the empty string gives one empty piece.
\<close>

fun split_on :: "char \<Rightarrow> string \<Rightarrow> string list" where
  "split_on c [] = [[]]"
| "split_on c (x # xs) =
     (if x = c then [] # split_on c xs
      else (case split_on c xs of [] \<Rightarrow> [[x]] | y # ys \<Rightarrow> (x # y) # ys))"

text \<open>\<^verbatim>\<open>x.split(";")\<close>: only a str has the method.\<close>

fun str_split :: "json \<Rightarrow> error + string list" where
  "str_split (JStr s) = Inr (split_on CHR '';'' s)"
| "str_split JNull = Inl AttributeError"
| "str_split (JBool b) = Inl AttributeError"
| "str_split (JInt i) = Inl AttributeError"
| "str_split (JFloat r) = Inl AttributeError"
| "str_split (JArr xs) = Inl AttributeError"
| "str_split (JObj kvs) = Inl AttributeError"

text \<open>\<^verbatim>\<open>sep.join(xs)\<close>.\<close>

fun join :: "string \<Rightarrow> string list \<Rightarrow> string" where
  "join sep [] = []"
| "join sep [x] = x"
| "join sep (x # y # ys) = x @ sep @ join sep (y # ys)"

text \<open>\<^verbatim>\<open>s.endswith(suffix)\<close>.\<close>

definition endswith :: "string \<Rightarrow> string \<Rightarrow> bool" where
  "endswith s suffix = (length suffix \<le> length s \<and> drop (length s - length suffix) s = suffix)"

text \<open>\<^verbatim>\<open>kwargs.get(k, d)\<close> on the dict of keyword arguments.\<close>

definition kwargs_get :: "(string \<rightharpoonup> json) \<Rightarrow> string \<Rightarrow> json \<Rightarrow> json" where
  "kwargs_get kwargs k d = (case kwargs k of None \<Rightarrow> d | Some v \<Rightarrow> v)"

subsection \<open>Paths\<close>

text \<open>
  A \<^verbatim>\<open>pathlib.Path\<close> is kept as the list of the strings it was built from:
  \<^verbatim>\<open>Path(a, b, c)\<close> is \<open>[a, b, c]\<close>, and \<^verbatim>\<open>Path(p, c)\<close> and
  \<^verbatim>\<open>p.joinpath(c)\<close> append \<open>c\<close> to the list of \<open>p\<close>. The code never compares two
  paths; it hands them to the file system.
\<close>

type_synonym path = "string list"

text \<open>
  \<^verbatim>\<open>os.path.join(a, b)\<close> of \<^verbatim>\<open>posixpath\<close>, for two components: an absolute
  \<open>b\<close> replaces \<open>a\<close>; otherwise \<open>b\<close> is appended, after a slash unless \<open>a\<close> is
  empty or ends with one.
\<close>

definition os_path_join :: "string \<Rightarrow> string \<Rightarrow> string" where
  "os_path_join a b =
     (if take 1 b = ''/'' then b
      else if a = [] \<or> endswith a ''/'' then a @ b
      else a @ ''/'' @ b)"

subsection \<open>\<^verbatim>\<open>Hardhat.is_supported\<close>\<close>

text \<open>
  The static method looks for the configuration file of a Hardhat project. The
  file system enters as the predicate \<open>isfile\<close> (\<^verbatim>\<open>os.path.isfile\<close>). The
  operator \<^verbatim>\<open>|\<close> on two bools is their disjunction.
\<close>

definition is_supported :: "(string \<Rightarrow> bool) \<Rightarrow> string \<Rightarrow> (string \<rightharpoonup> json) \<Rightarrow> bool" where
  "is_supported isfile target kwargs =
     (let hardhat_ignore = kwargs_get kwargs ''hardhat_ignore'' (JBool False)
      in if truthy hardhat_ignore then False
         else (isfile (os_path_join target ''hardhat.config.js'')
               \<or> isfile (os_path_join target ''hardhat.config.ts'')))"

subsection \<open>The objects that \<^verbatim>\<open>compile\<close> fills\<close>

text \<open>
  \<^verbatim>\<open>CompilerVersion(compiler=..., version=..., optimized=...)\<close> keeps its three
  arguments. The version and the optimizer flag are whatever the artifact holds
  under \<^verbatim>\<open>solcVersion\<close> and \<^verbatim>\<open>input.settings.optimizer.enabled\<close>.
\<close>

record CompilerVersion =
  compiler :: string
  version :: json
  optimized :: json

text \<open>
  A compilation unit. The type \<open>'f\<close> is the type of the filename identities that
  \<^verbatim>\<open>convert_filename\<close> returns; two of them are equal when Python's \<^verbatim>\<open>==\<close>
  says so. \<^verbatim>\<open>filename_to_contracts\<close> is a \<^verbatim>\<open>defaultdict(set)\<close>: a missing key
  reads as the empty set. The natspec of a contract is the pair of its user
  documentation and its developer documentation.
\<close>

record 'f CompilationUnit =
  unique_id :: string
  compiler_version :: "CompilerVersion option"
  contracts_names :: "string set"
  filename_to_contracts :: "'f \<rightharpoonup> string set"
  abis :: "string \<rightharpoonup> json"
  bytecodes_init :: "string \<rightharpoonup> json"
  bytecodes_runtime :: "string \<rightharpoonup> json"
  srcmaps_init :: "string \<rightharpoonup> string list"
  srcmaps_runtime :: "string \<rightharpoonup> string list"
  natspec :: "string \<rightharpoonup> json \<times> json"
  filenames :: "'f set"
  asts :: "string \<rightharpoonup> json"

text \<open>
  The \<^verbatim>\<open>CryticCompile\<close> object, as far as the platform touches it: the set of
  all filenames of the run (\<^verbatim>\<open>crytic_compile.filenames\<close>) and the compilation
  units by their identifier.
\<close>

record 'f CryticCompile =
  all_filenames :: "'f set"
  compilation_units :: "string \<rightharpoonup> 'f CompilationUnit"

text \<open>
  Modelled from the spec: the constructor \<^verbatim>\<open>CompilationUnit(crytic_compile, uniq_id)\<close>,
  whose class is not in the source at hand. A unit is created with empty
  registries and no compiler version, and is registered under its identifier;
  registering an identifier twice fails with \<open>DuplicateUnitId\<close>.
\<close>

definition empty_unit :: "string \<Rightarrow> 'f CompilationUnit" where
  "empty_unit uid =
     \<lparr> unique_id = uid, compiler_version = None, contracts_names = {},
       filename_to_contracts = Map.empty, abis = Map.empty,
       bytecodes_init = Map.empty, bytecodes_runtime = Map.empty,
       srcmaps_init = Map.empty, srcmaps_runtime = Map.empty,
       natspec = Map.empty, filenames = {}, asts = Map.empty \<rparr>"

definition new_CompilationUnit ::
  "'f CryticCompile \<Rightarrow> string \<Rightarrow> error + 'f CompilationUnit \<times> 'f CryticCompile" where
  "new_CompilationUnit cc uid =
     (case compilation_units cc uid of
        Some u \<Rightarrow> Inl (DuplicateUnitId uid)
      | None \<Rightarrow> Inr (empty_unit uid,
                     cc\<lparr>compilation_units := (compilation_units cc)(uid \<mapsto> empty_unit uid)\<rparr>))"

text \<open>
  Modelled from the spec: \<^verbatim>\<open>extract_name\<close> of \<^verbatim>\<open>crytic_compile.utils.naming\<close>,
  which is not in the source at hand. It takes the unqualified contract name
  out of a name that may be qualified by its file (\<^verbatim>\<open>path:Contract\<close>): the
  text after the last colon, the whole name when there is none.
\<close>

definition extract_name :: "string \<Rightarrow> string" where
  "extract_name name = rev (takeWhile (\<lambda>c. c \<noteq> CHR '':'') (rev name))"

subsection \<open>The world outside\<close>

text \<open>
  The file system, as \<^verbatim>\<open>compile\<close> reads it: \<^verbatim>\<open>os.listdir\<close>,
  \<^verbatim>\<open>os.path.getmtime\<close>, and \<^verbatim>\<open>open\<close> followed by \<^verbatim>\<open>json.load\<close>. Each of
  them gives its result or the exception it raises: \<^verbatim>\<open>os.listdir\<close> on a
  directory that does not exist, \<^verbatim>\<open>os.path.getmtime\<close> on an entry that cannot
  be examined (a dangling link, a file removed since the listing), \<^verbatim>\<open>open\<close>
  on a file that cannot be opened, \<^verbatim>\<open>json.load\<close> on a text that is not JSON.
\<close>

record filesystem =
  os_listdir :: "path \<Rightarrow> error + string list"
  getmtime :: "path \<Rightarrow> error + real"
  json_load :: "path \<Rightarrow> error + json"

text \<open>
  Everything else the platform depends on and does not define:
  \<^item> \<open>target\<close>: \<^verbatim>\<open>self._target\<close>;
  \<^item> \<open>popen_console\<close>: the Hardhat console started with a command line and fed a
    command, giving its decoded standard output and standard error;
  \<^item> \<open>popen_compile\<close>: what running \<^verbatim>\<open>hardhat compile --force\<close> does to the file
    system;
  \<^item> \<open>json_loads\<close>: \<^verbatim>\<open>json.loads\<close>, \<open>None\<close> when it raises \<^verbatim>\<open>ValueError\<close>;
  \<^item> \<open>convert_filename\<close>: \<^verbatim>\<open>convert_filename(name, relative_to_short,
    crytic_compile, working_dir=...)\<close> of \<^verbatim>\<open>crytic_compile.utils.naming\<close>, as a
    function of the working directory and the name;
  \<^item> \<open>absolute\<close>: the field \<^verbatim>\<open>absolute\<close> of a filename identity;
  \<^item> \<open>path_str\<close>: \<^verbatim>\<open>str\<close> of a path.
\<close>

record 'f world =
  target :: string
  popen_console :: "string list \<Rightarrow> string \<Rightarrow> string \<times> string"
  popen_compile :: "string list \<Rightarrow> filesystem \<Rightarrow> filesystem"
  json_loads :: "string \<Rightarrow> json option"
  convert_filename :: "path \<Rightarrow> string \<Rightarrow> 'f"
  absolute :: "'f \<Rightarrow> string"
  path_str :: "path \<Rightarrow> string"

subsection \<open>\<^verbatim>\<open>Hardhat._get_hardhat_paths\<close>\<close>

text \<open>
  The values of the dictionary of paths: a \<^verbatim>\<open>Path\<close> built by the platform, or
  whatever JSON value the Hardhat configuration reported.
\<close>

datatype pathval = PathV path | JsonV json

text \<open>
  \<^verbatim>\<open>_run_hardhat_console\<close>: the output of the console, or \<^verbatim>\<open>None\<close> when it
  wrote anything to its standard error.
\<close>

definition run_hardhat_console :: "'f world \<Rightarrow> string list \<Rightarrow> string \<Rightarrow> string option" where
  "run_hardhat_console w base_cmd command =
     (case popen_console w (base_cmd @ [''console'', ''--no-compile'']) command of
        (stdout, stderr) \<Rightarrow> if stderr \<noteq> [] then None else Some stdout)"

definition default_paths :: "string \<Rightarrow> (string \<rightharpoonup> pathval)" where
  "default_paths t =
     [''root'' \<mapsto> PathV [t],
      ''configFile'' \<mapsto> PathV [t, ''hardhat.config.js''],
      ''sources'' \<mapsto> PathV [t, ''contracts''],
      ''cache'' \<mapsto> PathV [t, ''cache''],
      ''artifacts'' \<mapsto> PathV [t, ''artifacts''],
      ''tests'' \<mapsto> PathV [t, ''test'']]"

text \<open>
  One of the three \<^verbatim>\<open>if args.get(opt, None): override_paths[key] =
  Path(target_path, args[opt])\<close>. \<^verbatim>\<open>Path\<close> accepts a str and raises
  \<^verbatim>\<open>TypeError\<close> on the other kinds of value.
\<close>

definition override_path ::
  "string \<Rightarrow> (string \<rightharpoonup> json) \<Rightarrow> string \<Rightarrow> string \<Rightarrow> (string \<rightharpoonup> pathval) \<Rightarrow> error + (string \<rightharpoonup> pathval)" where
  "override_path t args opt key ov =
     (if truthy (kwargs_get args opt JNull)
      then (case kwargs_get args opt JNull of
              JStr s \<Rightarrow> Inr (ov(key \<mapsto> PathV [t, s]))
            | _ \<Rightarrow> Inl TypeError)
      else Inr ov)"

definition override_paths :: "string \<Rightarrow> (string \<rightharpoonup> json) \<Rightarrow> error + (string \<rightharpoonup> pathval)" where
  "override_paths t args =
     (case override_path t args ''hardhat_cache_directory'' ''cache'' Map.empty of
        Inl e \<Rightarrow> Inl e
      | Inr ov1 \<Rightarrow>
     (case override_path t args ''hardhat_artifacts_directory'' ''artifacts'' ov1 of
        Inl e \<Rightarrow> Inl e
      | Inr ov2 \<Rightarrow> override_path t args ''hardhat_working_dir'' ''root'' ov2))"

text \<open>The dictionary that \<^verbatim>\<open>**paths\<close> unpacks, for a decoded JSON object.\<close>

definition reported_paths :: "(string \<times> json) list \<Rightarrow> (string \<rightharpoonup> pathval)" where
  "reported_paths kvs = map_of (map (\<lambda>(k, v). (k, JsonV v)) kvs)"

text \<open>
  \<^verbatim>\<open>{**a, **b, **c}\<close> is \<open>a ++ b ++ c\<close>: a later dictionary wins. Only
  \<^verbatim>\<open>ValueError\<close> is caught, so unpacking a decoded value that is not a dict
  raises \<^verbatim>\<open>TypeError\<close> to the caller.
\<close>

definition get_hardhat_paths ::
  "'f world \<Rightarrow> string list \<Rightarrow> (string \<rightharpoonup> json) \<Rightarrow> error + (string \<rightharpoonup> pathval)" where
  "get_hardhat_paths w base_cmd args =
     (case override_paths (target w) args of
        Inl e \<Rightarrow> Inl e
      | Inr override \<Rightarrow>
          (let print_paths = ''console.log(JSON.stringify(config.paths))'';
               config_str = run_hardhat_console w base_cmd print_paths;
               text = (case config_str of
                         None \<Rightarrow> ''{}''
                       | Some s \<Rightarrow> if s = [] then ''{}'' else s)
           in case json_loads w text of
                None \<Rightarrow> Inr (default_paths (target w) ++ override)
              | Some (JObj kvs) \<Rightarrow>
                  Inr (default_paths (target w) ++ reported_paths kvs ++ override)
              | Some _ \<Rightarrow> Inl TypeError))"

subsection \<open>Reading one build-info document\<close>

text \<open>
  The reads at the head of the loop body, in the order of the source:
  \<^verbatim>\<open>loaded_json["output"]\<close>, \<^verbatim>\<open>loaded_json["solcVersion"]\<close>,
  \<^verbatim>\<open>loaded_json["input"]\<close>, \<^verbatim>\<open>input_json["language"]\<close> and
  \<^verbatim>\<open>input_json["settings"]["optimizer"]["enabled"]\<close>. Nothing is written
  between them, so they are one function: the first read that raises decides
  the exception. The result is \<^verbatim>\<open>targets_json\<close> and the compiler version.
\<close>

definition read_header :: "json \<Rightarrow> error + json \<times> CompilerVersion" where
  "read_header loaded_json =
     (case getitem loaded_json ''output'' of Inl e \<Rightarrow> Inl e | Inr targets_json \<Rightarrow>
      case getitem loaded_json ''solcVersion'' of Inl e \<Rightarrow> Inl e | Inr version_from_config \<Rightarrow>
      case getitem loaded_json ''input'' of Inl e \<Rightarrow> Inl e | Inr input_json \<Rightarrow>
      case getitem input_json ''language'' of Inl e \<Rightarrow> Inl e | Inr language \<Rightarrow>
      case getpath input_json [''settings'', ''optimizer'', ''enabled''] of Inl e \<Rightarrow> Inl e
      | Inr optimized' \<Rightarrow>
          Inr (targets_json,
               \<lparr> compiler = (if language = JStr ''Solidity'' then ''solc'' else ''vyper''),
                 version = version_from_config,
                 optimized = optimized' \<rparr>))"

text \<open>
  \<^verbatim>\<open>[f"0.4.{x}" for x in range(0, 10)]\<close>; every \<open>x\<close> of the range has one
  decimal digit.
\<close>

definition legacy_versions :: "string list" where
  "legacy_versions = map (\<lambda>x. ''0.4.'' @ [''0123456789'' ! x]) [0..<10]"

definition skip_filename :: "CompilerVersion \<Rightarrow> bool" where
  "skip_filename cv = (version cv \<in> set (map JStr legacy_versions))"

text \<open>
  The body of the inner loop over the contracts of one file. Each statement
  that can raise leaves the unit as the statements before it made it.
\<close>

definition add_contract ::
  "(string \<Rightarrow> 'f) \<Rightarrow> string \<Rightarrow> string \<Rightarrow> json \<Rightarrow> 'f CompilationUnit
     \<Rightarrow> error option \<times> 'f CompilationUnit" where
  "add_contract cf original_filename original_contract_name info u =
     (let contract_name = extract_name original_contract_name;
          contract_filename = cf original_filename;
          u1 = u\<lparr>contracts_names := insert contract_name (contracts_names u)\<rparr>;
          u2 = u1\<lparr>filename_to_contracts := (filename_to_contracts u1)
                 (contract_filename \<mapsto>
                    insert contract_name
                      (case filename_to_contracts u1 contract_filename of
                         None \<Rightarrow> {} | Some s \<Rightarrow> s))\<rparr>
      in case getitem info ''abi'' of Inl e \<Rightarrow> (Some e, u2) | Inr abi \<Rightarrow>
         let u3 = u2\<lparr>abis := (abis u2)(contract_name \<mapsto> abi)\<rparr>
         in case getpath info [''evm'', ''bytecode'', ''object''] of
              Inl e \<Rightarrow> (Some e, u3) | Inr bi \<Rightarrow>
         let u4 = u3\<lparr>bytecodes_init := (bytecodes_init u3)(contract_name \<mapsto> bi)\<rparr>
         in case getpath info [''evm'', ''deployedBytecode'', ''object''] of
              Inl e \<Rightarrow> (Some e, u4) | Inr br \<Rightarrow>
         let u5 = u4\<lparr>bytecodes_runtime := (bytecodes_runtime u4)(contract_name \<mapsto> br)\<rparr>
         in case getpath info [''evm'', ''bytecode'', ''sourceMap''] of
              Inl e \<Rightarrow> (Some e, u5) | Inr si \<Rightarrow>
            case str_split si of Inl e \<Rightarrow> (Some e, u5) | Inr si' \<Rightarrow>
         let u6 = u5\<lparr>srcmaps_init := (srcmaps_init u5)(contract_name \<mapsto> si')\<rparr>
         in case getpath info [''evm'', ''deployedBytecode'', ''sourceMap''] of
              Inl e \<Rightarrow> (Some e, u6) | Inr sr \<Rightarrow>
            case str_split sr of Inl e \<Rightarrow> (Some e, u6) | Inr sr' \<Rightarrow>
         let u7 = u6\<lparr>srcmaps_runtime := (srcmaps_runtime u6)(contract_name \<mapsto> sr')\<rparr>
         in case dict_get info ''userdoc'' (JObj []) of
              Inl e \<Rightarrow> (Some e, u7) | Inr userdoc \<Rightarrow>
            case dict_get info ''devdoc'' (JObj []) of
              Inl e \<Rightarrow> (Some e, u7) | Inr devdoc \<Rightarrow>
            (None, u7\<lparr>natspec := (natspec u7)(contract_name \<mapsto> (userdoc, devdoc))\<rparr>))"

text \<open>\<^verbatim>\<open>for original_contract_name, info in contracts_info.items()\<close>.\<close>

fun add_contracts ::
  "(string \<Rightarrow> 'f) \<Rightarrow> string \<Rightarrow> (string \<times> json) list \<Rightarrow> 'f CompilationUnit
     \<Rightarrow> error option \<times> 'f CompilationUnit" where
  "add_contracts cf original_filename [] u = (None, u)"
| "add_contracts cf original_filename ((name, info) # rest) u =
     (case add_contract cf original_filename name info u of
        (Some e, u') \<Rightarrow> (Some e, u')
      | (None, u') \<Rightarrow> add_contracts cf original_filename rest u')"

text \<open>\<^verbatim>\<open>for original_filename, contracts_info in targets_json["contracts"].items()\<close>.\<close>

fun add_contract_files ::
  "(string \<Rightarrow> 'f) \<Rightarrow> (string \<times> json) list \<Rightarrow> 'f CompilationUnit
     \<Rightarrow> error option \<times> 'f CompilationUnit" where
  "add_contract_files cf [] u = (None, u)"
| "add_contract_files cf ((original_filename, contracts_info) # rest) u =
     (case items contracts_info of
        Inl e \<Rightarrow> (Some e, u)
      | Inr cs \<Rightarrow>
          (case add_contracts cf original_filename cs u of
             (Some e, u') \<Rightarrow> (Some e, u')
           | (None, u') \<Rightarrow> add_contract_files cf rest u'))"

text \<open>
  The body of the loop over the sources. The state is the unit together with
  \<^verbatim>\<open>crytic_compile.filenames\<close>.
\<close>

definition add_source ::
  "(string \<Rightarrow> 'f) \<Rightarrow> ('f \<Rightarrow> string) \<Rightarrow> string \<Rightarrow> bool \<Rightarrow> string \<Rightarrow> json
     \<Rightarrow> 'f CompilationUnit \<times> 'f set \<Rightarrow> error option \<times> 'f CompilationUnit \<times> 'f set" where
  "add_source cf absolute' target' skip path' info st =
     (case st of (u, g) \<Rightarrow>
        let p = (if skip then cf target' else cf path');
            g' = insert p g;
            u1 = u\<lparr>filenames := insert p (filenames u)\<rparr>
        in case getitem info ''ast'' of
             Inl e \<Rightarrow> (Some e, u1, g')
           | Inr ast \<Rightarrow> (None, u1\<lparr>asts := (asts u1)(absolute' p \<mapsto> ast)\<rparr>, g'))"

text \<open>\<^verbatim>\<open>for path, info in targets_json["sources"].items()\<close>.\<close>

fun add_sources ::
  "(string \<Rightarrow> 'f) \<Rightarrow> ('f \<Rightarrow> string) \<Rightarrow> string \<Rightarrow> bool \<Rightarrow> (string \<times> json) list
     \<Rightarrow> 'f CompilationUnit \<times> 'f set \<Rightarrow> error option \<times> 'f CompilationUnit \<times> 'f set" where
  "add_sources cf absolute' target' skip [] st = (None, st)"
| "add_sources cf absolute' target' skip ((path', info) # rest) st =
     (case add_source cf absolute' target' skip path' info st of
        (Some e, st') \<Rightarrow> (Some e, st')
      | (None, st') \<Rightarrow> add_sources cf absolute' target' skip rest st')"

text \<open>\<^verbatim>\<open>if "contracts" in targets_json: ...\<close>.\<close>

definition contracts_section ::
  "(string \<Rightarrow> 'f) \<Rightarrow> json \<Rightarrow> 'f CompilationUnit \<Rightarrow> error option \<times> 'f CompilationUnit" where
  "contracts_section cf targets_json u =
     (case contains ''contracts'' targets_json of
        Inl e \<Rightarrow> (Some e, u)
      | Inr False \<Rightarrow> (None, u)
      | Inr True \<Rightarrow>
          (case getitem targets_json ''contracts'' of
             Inl e \<Rightarrow> (Some e, u)
           | Inr contracts \<Rightarrow>
               (case items contracts of
                  Inl e \<Rightarrow> (Some e, u)
                | Inr fs \<Rightarrow> add_contract_files cf fs u)))"

text \<open>\<^verbatim>\<open>if "sources" in targets_json: ...\<close>.\<close>

definition sources_section ::
  "(string \<Rightarrow> 'f) \<Rightarrow> ('f \<Rightarrow> string) \<Rightarrow> string \<Rightarrow> bool \<Rightarrow> json
     \<Rightarrow> 'f CompilationUnit \<times> 'f set \<Rightarrow> error option \<times> 'f CompilationUnit \<times> 'f set" where
  "sources_section cf absolute' target' skip targets_json st =
     (case contains ''sources'' targets_json of
        Inl e \<Rightarrow> (Some e, st)
      | Inr False \<Rightarrow> (None, st)
      | Inr True \<Rightarrow>
          (case getitem targets_json ''sources'' of
             Inl e \<Rightarrow> (Some e, st)
           | Inr sources \<Rightarrow>
               (case items sources of
                  Inl e \<Rightarrow> (Some e, st)
                | Inr srcs \<Rightarrow> add_sources cf absolute' target' skip srcs st)))"

text \<open>
  The body of \<^verbatim>\<open>with open(...)\<close> once the document is decoded. \<open>wd\<close> is
  \<^verbatim>\<open>hardhat_working_dir\<close>.
\<close>

definition parse_build_info ::
  "'f world \<Rightarrow> path \<Rightarrow> json \<Rightarrow> 'f CompilationUnit \<times> 'f set
     \<Rightarrow> error option \<times> 'f CompilationUnit \<times> 'f set" where
  "parse_build_info w wd loaded_json st =
     (case st of (u, g) \<Rightarrow>
      case read_header loaded_json of
        Inl e \<Rightarrow> (Some e, u, g)
      | Inr (targets_json, cv) \<Rightarrow>
          (let u1 = u\<lparr>compiler_version := Some cv\<rparr>
           in case contracts_section (convert_filename w wd) targets_json u1 of
                (Some e, u2) \<Rightarrow> (Some e, u2, g)
              | (None, u2) \<Rightarrow>
                  sources_section (convert_filename w wd) (absolute w) (target w)
                    (skip_filename cv) targets_json (u2, g)))"

subsection \<open>\<^verbatim>\<open>Hardhat.compile\<close>\<close>

text \<open>
  \<^verbatim>\<open>uniq_id = file if ".json" not in file else file[0:-5]\<close>.
\<close>

definition uniq_id :: "string \<Rightarrow> string" where
  "uniq_id file = (if \<not> substring ''.json'' file then file else take (length file - 5) file)"

text \<open>
  One turn of \<^verbatim>\<open>for file in files\<close>. The unit is registered by its constructor
  and filled afterwards; since the registered object is the one being filled,
  the registry holds whatever was written when an exception stops the turn.
\<close>

definition compile_file ::
  "'f world \<Rightarrow> filesystem \<Rightarrow> path \<Rightarrow> path \<Rightarrow> string \<Rightarrow> 'f CryticCompile
     \<Rightarrow> error option \<times> 'f CryticCompile" where
  "compile_file w fs build_directory wd file cc =
     (let build_info = build_directory @ [file]
      in case new_CompilationUnit cc (uniq_id file) of
           Inl e \<Rightarrow> (Some e, cc)
         | Inr (u, cc1) \<Rightarrow>
             (case json_load fs build_info of
                Inl e \<Rightarrow> (Some e, cc1)
              | Inr loaded_json \<Rightarrow>
                  (case parse_build_info w wd loaded_json (u, all_filenames cc1) of
                     (r, u', g') \<Rightarrow>
                       (r, cc1\<lparr>all_filenames := g',
                               compilation_units :=
                                 (compilation_units cc1)(uniq_id file \<mapsto> u')\<rparr>))))"

fun compile_files ::
  "'f world \<Rightarrow> filesystem \<Rightarrow> path \<Rightarrow> path \<Rightarrow> string list \<Rightarrow> 'f CryticCompile
     \<Rightarrow> error option \<times> 'f CryticCompile" where
  "compile_files w fs build_directory wd [] cc = (None, cc)"
| "compile_files w fs build_directory wd (file # files) cc =
     (case compile_file w fs build_directory wd file cc of
        (Some e, cc') \<Rightarrow> (Some e, cc')
      | (None, cc') \<Rightarrow> compile_files w fs build_directory wd files cc')"

text \<open>
  The arguments of \<^verbatim>\<open>Path(self._target, x, ...)\<close> that a value of the dictionary
  of paths contributes: a path its own, a str itself; anything else is a
  \<^verbatim>\<open>TypeError\<close>.
\<close>

fun path_args :: "pathval \<Rightarrow> error + path" where
  "path_args (PathV p) = Inr p"
| "path_args (JsonV (JStr s)) = Inr [s]"
| "path_args (JsonV JNull) = Inl TypeError"
| "path_args (JsonV (JBool b)) = Inl TypeError"
| "path_args (JsonV (JInt i)) = Inl TypeError"
| "path_args (JsonV (JFloat r)) = Inl TypeError"
| "path_args (JsonV (JArr xs)) = Inl TypeError"
| "path_args (JsonV (JObj kvs)) = Inl TypeError"

text \<open>\<^verbatim>\<open>detected_paths[k]\<close>.\<close>

definition detected :: "(string \<rightharpoonup> pathval) \<Rightarrow> string \<Rightarrow> error + path" where
  "detected detected_paths k =
     (case detected_paths k of None \<Rightarrow> Inl (KeyError k) | Some v \<Rightarrow> path_args v)"

text \<open>
  \<^verbatim>\<open>sorted\<close> calls its key function once on every element, in the order of the
  list, before it compares any two of them: the names come out paired with
  their modification times, or the first call of \<^verbatim>\<open>os.path.getmtime\<close> that
  raises ends the sort with its exception.
\<close>

fun getmtimes :: "filesystem \<Rightarrow> path \<Rightarrow> string list \<Rightarrow> error + (string \<times> real) list" where
  "getmtimes fs d [] = Inr []"
| "getmtimes fs d (x # xs) =
     (case getmtime fs (d @ [x]) of
        Inl e \<Rightarrow> Inl e
      | Inr t \<Rightarrow>
          (case getmtimes fs d xs of
             Inl e \<Rightarrow> Inl e
           | Inr ts \<Rightarrow> Inr ((x, t) # ts)))"

text \<open>
  \<^verbatim>\<open>sorted(os.listdir(d), key=lambda x: os.path.getmtime(Path(d, x)))\<close>
  followed by the filter on the extension. Every entry of the directory is
  examined, also those the filter drops afterwards. \<^verbatim>\<open>sorted\<close> is stable, as
  \<open>sort_key\<close> is.
\<close>

definition locate :: "filesystem \<Rightarrow> path \<Rightarrow> error + string list" where
  "locate fs build_directory =
     (case os_listdir fs build_directory of
        Inl e \<Rightarrow> Inl e
      | Inr names \<Rightarrow>
          (case getmtimes fs build_directory names of
             Inl e \<Rightarrow> Inl e
           | Inr keyed \<Rightarrow>
               Inr (filter (\<lambda>f. endswith f ''.json'') (map fst (sort_key snd keyed)))))"

text \<open>
  The first part of the method, up to the compile step: the command line, the
  detected paths, \<^verbatim>\<open>build_directory\<close>, \<^verbatim>\<open>hardhat_working_dir\<close> and the
  file system as the compile step leaves it (the step is skipped when
  \<^verbatim>\<open>hardhat_ignore_compile\<close> holds). The \<^verbatim>\<open>CryticCompile\<close> object is not
  touched here.
\<close>

definition compile_setup ::
  "'f world \<Rightarrow> (string \<rightharpoonup> json) \<Rightarrow> filesystem \<Rightarrow> error + path \<times> path \<times> filesystem" where
  "compile_setup w kwargs fs =
     (let hardhat_ignore_compile =
            (truthy (kwargs_get kwargs ''hardhat_ignore_compile'' (JBool False))
             \<or> truthy (kwargs_get kwargs ''ignore_compile'' (JBool False)));
          base_cmd = (if \<not> truthy (kwargs_get kwargs ''npx_disable'' (JBool False))
                      then [''npx'', ''hardhat''] else [''hardhat''])
      in case get_hardhat_paths w base_cmd kwargs of
           Inl e \<Rightarrow> Inl e
         | Inr detected_paths \<Rightarrow>
      case detected detected_paths ''artifacts'' of
           Inl e \<Rightarrow> Inl e
         | Inr artifacts \<Rightarrow>
      case detected detected_paths ''root'' of
           Inl e \<Rightarrow> Inl e
         | Inr root_dir \<Rightarrow>
             Inr (target w # artifacts @ [''build-info''],
                  target w # root_dir,
                  if \<not> hardhat_ignore_compile
                  then popen_compile w (base_cmd @ [''compile'', ''--force'']) fs
                  else fs))"

text \<open>
  The method itself. The result is the exception raised, if any, and the
  \<^verbatim>\<open>CryticCompile\<close> object as the method leaves it.
\<close>

definition compile ::
  "'f world \<Rightarrow> (string \<rightharpoonup> json) \<Rightarrow> filesystem \<Rightarrow> 'f CryticCompile
     \<Rightarrow> error option \<times> 'f CryticCompile" where
  "compile w kwargs fs cc =
     (case compile_setup w kwargs fs of
        Inl e \<Rightarrow> (Some e, cc)
      | Inr (build_directory, hardhat_working_dir, fs') \<Rightarrow>
          (case locate fs' build_directory of
             Inl e \<Rightarrow> (Some e, cc)
           | Inr files \<Rightarrow>
               if files = []
               then (Some (InvalidCompilation
                       (''`hardhat compile` failed. Can you run it?'' @ [CHR 0x0A]
                        @ path_str w build_directory @ '' is empty'')), cc)
               else compile_files w fs' build_directory hardhat_working_dir files cc))"

subsection \<open>Sample inputs\<close>

text \<open>
  The information of one contract, as \<^verbatim>\<open>solc\<close> reports it, and the smallest
  build-info document around it.
\<close>

definition sample_info :: json where
  "sample_info =
     JObj [(''abi'', JArr []),
           (''evm'', JObj
              [(''bytecode'', JObj [(''object'', JStr ''60''),
                                    (''sourceMap'', JStr ''1:2:0;3:4:0'')]),
               (''deployedBytecode'', JObj [(''object'', JStr ''61''),
                                            (''sourceMap'', JStr ''5:6:0'')])])]"

definition minimal_artifact :: json where
  "minimal_artifact =
     JObj [(''solcVersion'', JStr ''0.8.1''),
           (''input'', JObj
              [(''language'', JStr ''Solidity''),
               (''settings'', JObj [(''optimizer'', JObj [(''enabled'', JBool True)])])]),
           (''output'', JObj
              [(''contracts'', JObj [(''A.sol'', JObj [(''Foo'', sample_info)])])])]"

text \<open>
  A build directory with three entries; the file whose name sorts last is the
  oldest.
\<close>

definition sample_fs :: filesystem where
  "sample_fs =
     \<lparr> os_listdir = (\<lambda>d. if d = [''bd'']
                          then Inr [''b.json'', ''notes.txt'', ''a.json'']
                          else Inl FileNotFoundError),
       getmtime = (\<lambda>p. if p = [''bd'', ''b.json''] then Inr 1
                        else if p = [''bd'', ''a.json''] then Inr 3 else Inr 2),
       json_load = (\<lambda>p. if p = [''bd'', ''a.json''] then Inr minimal_artifact
                         else Inl ValueError) \<rparr>"

text \<open>
  A world in which the console prints nothing, the compile step leaves the file
  system alone and a filename identity is the name itself; and a world whose
  console reports two paths of the Hardhat configuration.
\<close>

definition sample_world :: "string world" where
  "sample_world =
     \<lparr> target = ''proj'',
       popen_console = (\<lambda>cmd inp. ([], [])),
       popen_compile = (\<lambda>cmd fs. fs),
       json_loads = (\<lambda>s. if s = ''{}'' then Some (JObj []) else None),
       convert_filename = (\<lambda>wd name. name),
       absolute = (\<lambda>f. ''/abs/'' @ f),
       path_str = join ''/'' \<rparr>"


text \<open>A file system whose directories all hold one file that is no artifact.\<close>

definition other_fs :: filesystem where
  "other_fs =
     \<lparr> os_listdir = (\<lambda>d. Inr [''notes.txt'']),
       getmtime = (\<lambda>p. Inr 0),
       json_load = (\<lambda>p. Inl ValueError) \<rparr>"

text \<open>
  A document with one source and no contract, for a given language and compiler
  version; a document whose output is empty; and a document in which the same
  contract name is defined in two files.
\<close>

definition versioned_artifact :: "string \<Rightarrow> string \<Rightarrow> json" where
  "versioned_artifact language v =
     JObj [(''solcVersion'', JStr v),
           (''input'', JObj
              [(''language'', JStr language),
               (''settings'', JObj [(''optimizer'', JObj [(''enabled'', JBool True)])])]),
           (''output'', JObj [(''sources'', JObj [(''A.sol'', JObj [(''ast'', JNull)])])])]"

definition bare_artifact :: json where
  "bare_artifact =
     JObj [(''solcVersion'', JStr ''0.8.1''),
           (''input'', JObj
              [(''language'', JStr ''Solidity''),
               (''settings'', JObj [(''optimizer'', JObj [(''enabled'', JBool True)])])]),
           (''output'', JObj [])]"

definition dup_artifact :: json where
  "dup_artifact =
     JObj [(''solcVersion'', JStr ''0.8.1''),
           (''input'', JObj
              [(''language'', JStr ''Solidity''),
               (''settings'', JObj [(''optimizer'', JObj [(''enabled'', JBool True)])])]),
           (''output'', JObj
              [(''contracts'', JObj [(''A.sol'', JObj [(''Foo'', sample_info)]),
                                     (''B.sol'', JObj [(''Foo'', sample_info)])]),
               (''sources'', JObj [(''A.sol'', JObj [(''ast'', JNull)]),
                                   (''B.sol'', JObj [(''ast'', JNull)])])])]"

text \<open>A file system whose files all decode to a document without \<^verbatim>\<open>output\<close>.\<close>

definition headless_fs :: filesystem where
  "headless_fs =
     \<lparr> os_listdir = (\<lambda>d. Inr [''a.json'']),
       getmtime = (\<lambda>p. Inr 0),
       json_load = (\<lambda>p. Inr (JObj [(''solcVersion'', JStr ''0.8.1'')])) \<rparr>"

text \<open>
  Two build directories with an entry that cannot be examined, a link whose
  target is gone: next to an artifact, and alone.
\<close>

definition dangling_fs :: filesystem where
  "dangling_fs =
     \<lparr> os_listdir = (\<lambda>d. Inr [''a.json'', ''gone.txt'']),
       getmtime = (\<lambda>p. if p = [''bd'', ''gone.txt''] then Inl FileNotFoundError else Inr 1),
       json_load = (\<lambda>p. Inr minimal_artifact) \<rparr>"

definition dangling_only_fs :: filesystem where
  "dangling_only_fs =
     \<lparr> os_listdir = (\<lambda>d. Inr [''gone.txt'']),
       getmtime = (\<lambda>p. Inl FileNotFoundError),
       json_load = (\<lambda>p. Inl ValueError) \<rparr>"

text \<open>
  A build directory in which the older file is a good artifact and the newer
  one is not valid JSON.
\<close>

definition late_broken_fs :: filesystem where
  "late_broken_fs =
     \<lparr> os_listdir = (\<lambda>d. Inr [''b.json'', ''a.json'']),
       getmtime = (\<lambda>p. if p = [''proj'', ''proj'', ''artifacts'', ''build-info'', ''a.json'']
                        then Inr 1 else Inr 2),
       json_load = (\<lambda>p. if p = [''proj'', ''proj'', ''artifacts'', ''build-info'', ''a.json'']
                         then Inr minimal_artifact else Inl ValueError) \<rparr>"

text \<open>A document with two sources, each with an AST of its own, and no contract.\<close>

definition sources_only_artifact :: json where
  "sources_only_artifact =
     JObj [(''solcVersion'', JStr ''0.8.1''),
           (''input'', JObj
              [(''language'', JStr ''Solidity''),
               (''settings'', JObj [(''optimizer'', JObj [(''enabled'', JBool True)])])]),
           (''output'', JObj
              [(''sources'', JObj
                 [(''A.sol'', JObj [(''ast'', JObj [(''id'', JInt 1)])]),
                  (''B.sol'', JObj [(''ast'', JObj [(''id'', JInt 2)])])])])]"

text \<open>The \<^verbatim>\<open>CryticCompile\<close> object before any platform has run.\<close>

definition empty_crytic_compile :: "'f CryticCompile" where
  "empty_crytic_compile = \<lparr>all_filenames = {}, compilation_units = Map.empty\<rparr>"

subsection \<open>Invariants of a compilation unit\<close>

text \<open>
  Every contract with an ABI is among the contract names and in the set of
  contracts of some file; every key of the ASTs is the absolute form of a
  filename of the unit.
\<close>

definition contracts_registered :: "'f CompilationUnit \<Rightarrow> bool" where
  "contracts_registered u =
     (dom (abis u) \<subseteq> contracts_names u
      \<and> dom (abis u) \<subseteq> {n. \<exists>f s. filename_to_contracts u f = Some s \<and> n \<in> s})"

definition asts_registered :: "('f \<Rightarrow> string) \<Rightarrow> 'f CompilationUnit \<Rightarrow> bool" where
  "asts_registered absolute' u = (dom (asts u) \<subseteq> absolute' ` filenames u)"

section \<open>Properties\<close>

subsection \<open>Splitting and joining\<close>




subsection \<open>Reading JSON values\<close>

lemma getitem_Inr_obj:
  "getitem j k = Inr v \<Longrightarrow> \<exists>kvs. j = JObj kvs \<and> map_of kvs k = Some v"
  by (cases j) (auto split: option.splits)

lemma legacy_versions_eq:
  "legacy_versions = [''0.4.0'', ''0.4.1'', ''0.4.2'', ''0.4.3'', ''0.4.4'',
                      ''0.4.5'', ''0.4.6'', ''0.4.7'', ''0.4.8'', ''0.4.9'']"
  unfolding legacy_versions_def by (simp add: upt_rec)

subsection \<open>Source maps\<close>



subsection \<open>Finding the build-info files\<close>

lemma getmtimes_all:
  "(\<And>x. x \<in> set names \<Longrightarrow> getmtime fs (d @ [x]) = Inr (mt x))
     \<Longrightarrow> getmtimes fs d names = Inr (map (\<lambda>x. (x, mt x)) names)"
  by (induction names) simp_all

lemma getmtimes_first_error:
  "(\<And>x. x \<in> set pre \<Longrightarrow> \<exists>t. getmtime fs (d @ [x]) = Inr t)
     \<Longrightarrow> getmtime fs (d @ [bad]) = Inl e
     \<Longrightarrow> getmtimes fs d (pre @ bad # post) = Inl e"
proof (induction pre)
  case Nil
  then show ?case by simp
next
  case (Cons x pre)
  from Cons.prems(1) [of x] obtain t where "getmtime fs (d @ [x]) = Inr t"
    by auto
  moreover have "getmtimes fs d (pre @ bad # post) = Inl e"
    using Cons.IH Cons.prems by simp
  ultimately show ?case by simp
qed

lemma insort_key_decorated:
  "insort_key snd (x, f x) (map (\<lambda>y. (y, f y)) ys) = map (\<lambda>y. (y, f y)) (insort_key f x ys)"
  by (induction ys) simp_all

lemma sort_key_decorated:
  "sort_key snd (map (\<lambda>y. (y, f y)) xs) = map (\<lambda>y. (y, f y)) (sort_key f xs)"
  by (induction xs) (simp_all add: insort_key_decorated)

lemma locate_all:
  assumes "os_listdir fs d = Inr names"
    and "\<And>x. x \<in> set names \<Longrightarrow> getmtime fs (d @ [x]) = Inr (mt x)"
  shows "locate fs d = Inr (filter (\<lambda>f. endswith f ''.json'') (sort_key mt names))"
proof -
  have "map fst (sort_key snd (map (\<lambda>y. (y, mt y)) names)) = sort_key mt names"
    by (simp add: sort_key_decorated comp_def)
  with assms(1) getmtimes_all [OF assms(2), of names] show ?thesis
    by (simp add: locate_def)
qed

lemma locate_first_error:
  assumes "os_listdir fs d = Inr (pre @ bad # post)"
    and "\<And>x. x \<in> set pre \<Longrightarrow> \<exists>t. getmtime fs (d @ [x]) = Inr t"
    and "getmtime fs (d @ [bad]) = Inl e"
  shows "locate fs d = Inl e"
  using assms(1) getmtimes_first_error [OF assms(2,3), of pre post]
  by (simp add: locate_def)

text \<open>
  Claim C3, as the code has it. The sort examines every entry of the listing,
  also those the filter drops. When the modification time of every entry can
  be read, the files found are exactly the names of the directory that end
  with \<^verbatim>\<open>.json\<close>, each as often as the listing has it; they are in ascending
  order of modification time; and of two found files the one with the strictly
  smaller modification time comes first, whatever their names. When the
  modification time of some entry cannot be read, nothing is found: the
  exception of the first such entry, in the order of the listing, is raised.
\<close>

theorem locate_sorted:
  assumes "os_listdir fs d = Inr names"
  shows "((\<forall>x \<in> set names. getmtime fs (d @ [x]) = Inr (mt x))
            \<longrightarrow> (\<exists>files. locate fs d = Inr files
                  \<and> mset files = filter_mset (\<lambda>f. endswith f ''.json'') (mset names)
                  \<and> sorted (map mt files)
                  \<and> (\<forall>i j. i < length files \<and> j < length files
                        \<and> mt (files ! i) < mt (files ! j) \<longrightarrow> i < j)))
       \<and> (names = pre @ bad # post
          \<and> (\<forall>x \<in> set pre. \<exists>t. getmtime fs (d @ [x]) = Inr t)
          \<and> getmtime fs (d @ [bad]) = Inl e
            \<longrightarrow> locate fs d = Inl e)"
proof -
  let ?files = "filter (\<lambda>f. endswith f ''.json'') (sort_key mt names)"
  have A: "\<exists>files. locate fs d = Inr files
                  \<and> mset files = filter_mset (\<lambda>f. endswith f ''.json'') (mset names)
                  \<and> sorted (map mt files)
                  \<and> (\<forall>i j. i < length files \<and> j < length files
                        \<and> mt (files ! i) < mt (files ! j) \<longrightarrow> i < j)"
    if h: "\<forall>x \<in> set names. getmtime fs (d @ [x]) = Inr (mt x)"
  proof -
    have loc: "locate fs d = Inr ?files"
      using locate_all [OF assms, of mt] h by blast
    have ms: "mset ?files = filter_mset (\<lambda>f. endswith f ''.json'') (mset names)"
      by simp
    have srt: "sorted (map mt ?files)"
      by (simp add: filter_sort)
    have ord: "i < j"
      if "i < length ?files" "j < length ?files" "mt (?files ! i) < mt (?files ! j)" for i j
    proof (rule ccontr)
      assume "\<not> i < j"
      then have "j \<le> i" by simp
      with srt that(1) have "map mt ?files ! j \<le> map mt ?files ! i"
        by (intro sorted_nth_mono) simp_all
      with that show False by simp
    qed
    from loc ms srt ord show ?thesis by blast
  qed
  have B: "locate fs d = Inl e"
    if "names = pre @ bad # post" "\<forall>x \<in> set pre. \<exists>t. getmtime fs (d @ [x]) = Inr t"
      "getmtime fs (d @ [bad]) = Inl e"
    using locate_first_error [of fs d pre bad post e] assms that by blast
  from A B show ?thesis by blast
qed

theorem locate_sorted_witness:
  "os_listdir sample_fs [''bd''] = Inr [''b.json'', ''notes.txt'', ''a.json'']
   \<and> getmtime sample_fs [''bd'', ''b.json''] = Inr 1
   \<and> getmtime sample_fs [''bd'', ''notes.txt''] = Inr 2
   \<and> getmtime sample_fs [''bd'', ''a.json''] = Inr 3
   \<and> locate sample_fs [''bd''] = Inr [''b.json'', ''a.json'']
   \<and> os_listdir dangling_fs [''bd''] = Inr ([''a.json''] @ ''gone.txt'' # [])
   \<and> getmtime dangling_fs [''bd'', ''a.json''] = Inr 1
   \<and> getmtime dangling_fs [''bd'', ''gone.txt''] = Inl FileNotFoundError
   \<and> locate dangling_fs [''bd''] = Inl FileNotFoundError"
proof -
  let ?mt = "\<lambda>x. if x = ''b.json'' then 1 else if x = ''a.json'' then 3 else (2::real)"
  have l: "os_listdir sample_fs [''bd''] = Inr [''b.json'', ''notes.txt'', ''a.json'']"
    by (simp add: sample_fs_def)
  have m: "getmtime sample_fs [''bd'', ''b.json''] = Inr 1"
    "getmtime sample_fs [''bd'', ''notes.txt''] = Inr 2"
    "getmtime sample_fs [''bd'', ''a.json''] = Inr 3"
    by (simp_all add: sample_fs_def)
  have a: "\<forall>x \<in> set [''b.json'', ''notes.txt'', ''a.json''].
             getmtime sample_fs ([''bd''] @ [x]) = Inr (?mt x)"
    by (simp add: sample_fs_def)
  have 1: "locate sample_fs [''bd''] = Inr [''b.json'', ''a.json'']"
    using locate_sorted [OF l, of ?mt] a
    by (simp add: locate_def sample_fs_def endswith_def)
  have l2: "os_listdir dangling_fs [''bd''] = Inr ([''a.json''] @ ''gone.txt'' # [])"
    by (simp add: dangling_fs_def)
  have m2: "getmtime dangling_fs [''bd'', ''a.json''] = Inr 1"
    "getmtime dangling_fs [''bd'', ''gone.txt''] = Inl FileNotFoundError"
    by (simp_all add: dangling_fs_def)
  have a2: "\<forall>x \<in> set [''a.json'']. \<exists>t. getmtime dangling_fs ([''bd''] @ [x]) = Inr t"
    by (simp add: dangling_fs_def)
  from locate_sorted [OF l2, of _ "[''a.json'']" "''gone.txt''" "[]" FileNotFoundError] a2 m2
  have 2: "locate dangling_fs [''bd''] = Inl FileNotFoundError"
    by simp
  show ?thesis
    by (intro conjI l m 1 l2 m2 2)
qed

theorem locate_unreadable_entry_counterexample:
  "os_listdir dangling_fs [''bd''] = Inr [''a.json'', ''gone.txt'']
   \<and> endswith ''a.json'' ''.json''
   \<and> locate dangling_fs [''bd''] = Inl FileNotFoundError"
  by (simp add: locate_def dangling_fs_def endswith_def)

subsection \<open>Recognising a Hardhat project\<close>

text \<open>
  Claim C10. When the argument \<^verbatim>\<open>hardhat_ignore\<close> is truthy, \<^verbatim>\<open>is_supported\<close>
  is false whatever the file system holds. Otherwise it is true exactly when
  \<^verbatim>\<open>hardhat.config.js\<close> or \<^verbatim>\<open>hardhat.config.ts\<close>, joined to the target, is a
  file.
\<close>

theorem is_supported_spec:
  "(truthy (kwargs_get kwargs ''hardhat_ignore'' (JBool False))
      \<longrightarrow> (\<forall>isfile'. \<not> is_supported isfile' t kwargs))
   \<and> (\<not> truthy (kwargs_get kwargs ''hardhat_ignore'' (JBool False))
      \<longrightarrow> (is_supported isfile t kwargs
           \<longleftrightarrow> (isfile (os_path_join t ''hardhat.config.js'')
                \<or> isfile (os_path_join t ''hardhat.config.ts''))))"
  by (simp add: is_supported_def)

theorem is_supported_spec_witness:
  "\<not> is_supported (\<lambda>p. True) ''proj'' [''hardhat_ignore'' \<mapsto> JBool True]
   \<and> is_supported (\<lambda>p. p = ''proj/hardhat.config.ts'') ''proj'' Map.empty
   \<and> \<not> is_supported (\<lambda>p. p = ''proj/sub/hardhat.config.ts'') ''proj'' Map.empty"
  using is_supported_spec [of "[''hardhat_ignore'' \<mapsto> JBool True]" "''proj''" "\<lambda>p. True"]
        is_supported_spec [of Map.empty "''proj''" "\<lambda>p. p = ''proj/hardhat.config.ts''"]
        is_supported_spec [of Map.empty "''proj''" "\<lambda>p. p = ''proj/sub/hardhat.config.ts''"]
  by (simp add: kwargs_get_def os_path_join_def endswith_def)

subsection \<open>The paths of the project\<close>







subsection \<open>A build directory without artifacts\<close>

lemma detected_default_artifacts:
  "detected (default_paths t) ''artifacts'' = Inr [t, ''artifacts'']"
  by (simp add: detected_def default_paths_def)

lemma detected_default_root:
  "detected (default_paths t) ''root'' = Inr [t]"
  by (simp add: detected_def default_paths_def)

lemma sample_paths:
  "get_hardhat_paths sample_world base Map.empty = Inr (default_paths ''proj'')"
  by (simp add: get_hardhat_paths_def override_paths_def override_path_def
      kwargs_get_def run_hardhat_console_def sample_world_def reported_paths_def)

lemma sample_setup_any:
  "compile_setup sample_world Map.empty fs
     = Inr ([''proj'', ''proj'', ''artifacts'', ''build-info''], [''proj'', ''proj''], fs)"
proof -
  have t: "target sample_world = ''proj''" "popen_compile sample_world = (\<lambda>cmd fs. fs)"
    by (simp_all add: sample_world_def)
  show ?thesis
    unfolding compile_setup_def Let_def sample_paths
    by (simp add: detected_default_artifacts detected_default_root t)
qed

text \<open>
  Claim C4, as the code has it. Suppose the first part of the method has given
  the build directory, the directory can be listed and none of its names ends
  with \<^verbatim>\<open>.json\<close> (in particular when it is empty). When the modification time
  of every entry can be read, the method raises \<^verbatim>\<open>InvalidCompilation\<close> with
  the message on the empty build directory. When the modification time of some
  entry cannot be read, the method raises the exception of the first such
  entry instead. In both cases the \<^verbatim>\<open>CryticCompile\<close> object is as it was: no
  compilation unit has been created.
\<close>

theorem no_artifacts_found:
  assumes "compile_setup w kwargs fs = Inr (bd, wd, fs')"
    and "os_listdir fs' bd = Inr names"
    and "filter (\<lambda>f. endswith f ''.json'') names = []"
  shows "((\<forall>x \<in> set names. \<exists>t. getmtime fs' (bd @ [x]) = Inr t)
            \<longrightarrow> compile w kwargs fs cc =
                  (Some (InvalidCompilation
                           (''`hardhat compile` failed. Can you run it?'' @ [CHR 0x0A]
                            @ path_str w bd @ '' is empty'')), cc))
       \<and> (names = pre @ bad # post
          \<and> (\<forall>x \<in> set pre. \<exists>t. getmtime fs' (bd @ [x]) = Inr t)
          \<and> getmtime fs' (bd @ [bad]) = Inl e
            \<longrightarrow> compile w kwargs fs cc = (Some e, cc))"
proof -
  have A: "compile w kwargs fs cc =
                  (Some (InvalidCompilation
                           (''`hardhat compile` failed. Can you run it?'' @ [CHR 0x0A]
                            @ path_str w bd @ '' is empty'')), cc)"
    if h: "\<forall>x \<in> set names. \<exists>t. getmtime fs' (bd @ [x]) = Inr t"
  proof -
    from h have "\<forall>x \<in> set names. getmtime fs' (bd @ [x]) = Inr (projr (getmtime fs' (bd @ [x])))"
      by fastforce
    then have "locate fs' bd = Inr (filter (\<lambda>f. endswith f ''.json'')
                 (sort_key (\<lambda>x. projr (getmtime fs' (bd @ [x]))) names))"
      using locate_all [OF assms(2), of "\<lambda>x. projr (getmtime fs' (bd @ [x]))"] by blast
    then have "locate fs' bd = Inr []"
      using assms(3) by (simp add: filter_sort)
    with assms(1) show ?thesis
      by (simp add: compile_def)
  qed
  have B: "compile w kwargs fs cc = (Some e, cc)"
    if "names = pre @ bad # post" "\<forall>x \<in> set pre. \<exists>t. getmtime fs' (bd @ [x]) = Inr t"
      "getmtime fs' (bd @ [bad]) = Inl e"
  proof -
    have "locate fs' bd = Inl e"
      using locate_first_error [of fs' bd pre bad post e] assms(2) that by blast
    with assms(1) show ?thesis
      by (simp add: compile_def)
  qed
  from A B show ?thesis by blast
qed


theorem no_artifacts_found_witness:
  "compile_setup sample_world Map.empty other_fs
     = Inr ([''proj'', ''proj'', ''artifacts'', ''build-info''], [''proj'', ''proj''], other_fs)
   \<and> os_listdir other_fs [''proj'', ''proj'', ''artifacts'', ''build-info''] = Inr [''notes.txt'']
   \<and> filter (\<lambda>f. endswith f ''.json'') [''notes.txt''] = []
   \<and> getmtime other_fs [''proj'', ''proj'', ''artifacts'', ''build-info'', ''notes.txt''] = Inr 0
   \<and> compile sample_world Map.empty other_fs empty_crytic_compile
       = (Some (InvalidCompilation
                 (''`hardhat compile` failed. Can you run it?'' @ [CHR 0x0A]
                  @ ''proj/proj/artifacts/build-info is empty'')), empty_crytic_compile)
   \<and> os_listdir dangling_only_fs [''proj'', ''proj'', ''artifacts'', ''build-info'']
       = Inr ([] @ ''gone.txt'' # [])
   \<and> getmtime dangling_only_fs [''proj'', ''proj'', ''artifacts'', ''build-info'', ''gone.txt'']
       = Inl FileNotFoundError
   \<and> compile sample_world Map.empty dangling_only_fs empty_crytic_compile
       = (Some FileNotFoundError, empty_crytic_compile)"
proof -
  let ?bd = "[''proj'', ''proj'', ''artifacts'', ''build-info'']"
  have b: "os_listdir other_fs ?bd = Inr [''notes.txt'']"
    by (simp add: other_fs_def)
  have c: "filter (\<lambda>f. endswith f ''.json'') [''notes.txt''] = []"
    by (simp add: endswith_def)
  have m: "getmtime other_fs [''proj'', ''proj'', ''artifacts'', ''build-info'', ''notes.txt''] = Inr 0"
    by (simp add: other_fs_def)
  have a: "\<forall>x \<in> set [''notes.txt'']. \<exists>t. getmtime other_fs (?bd @ [x]) = Inr t"
    by (simp add: other_fs_def)
  have p: "path_str sample_world ?bd = ''proj/proj/artifacts/build-info''"
    by (simp add: sample_world_def)
  have 1: "compile sample_world Map.empty other_fs empty_crytic_compile
       = (Some (InvalidCompilation
                 (''`hardhat compile` failed. Can you run it?'' @ [CHR 0x0A]
                  @ ''proj/proj/artifacts/build-info is empty'')), empty_crytic_compile)"
    using no_artifacts_found [OF sample_setup_any b c, of empty_crytic_compile] a p
    by simp
  have b2: "os_listdir dangling_only_fs ?bd = Inr ([] @ ''gone.txt'' # [])"
    by (simp add: dangling_only_fs_def)
  have c2: "filter (\<lambda>f. endswith f ''.json'') ([] @ ''gone.txt'' # []) = []"
    by (simp add: endswith_def)
  have m2: "getmtime dangling_only_fs [''proj'', ''proj'', ''artifacts'', ''build-info'', ''gone.txt'']
              = Inl FileNotFoundError"
    by (simp add: dangling_only_fs_def)
  have 2: "compile sample_world Map.empty dangling_only_fs empty_crytic_compile
       = (Some FileNotFoundError, empty_crytic_compile)"
    using no_artifacts_found [OF sample_setup_any b2 c2, where cc = empty_crytic_compile
        and pre = "[]" and bad = "''gone.txt''" and post = "[]" and e = FileNotFoundError] m2
    by simp
  show ?thesis
    by (intro conjI sample_setup_any b c m 1 b2 m2 2)
qed

theorem no_artifacts_unreadable_entry_counterexample:
  "os_listdir dangling_only_fs [''proj'', ''proj'', ''artifacts'', ''build-info''] = Inr [''gone.txt'']
   \<and> \<not> endswith ''gone.txt'' ''.json''
   \<and> compile sample_world Map.empty dangling_only_fs empty_crytic_compile
       = (Some FileNotFoundError, empty_crytic_compile)"
  by (simp add: compile_def sample_setup_any locate_def dangling_only_fs_def endswith_def)

subsection \<open>The registries of a parsed unit\<close>

lemma add_contract_fields:
  "contracts_names (snd (add_contract cf fn raw info u))
     = insert (extract_name raw) (contracts_names u)"
  "filename_to_contracts (snd (add_contract cf fn raw info u))
     = (filename_to_contracts u)
         (cf fn \<mapsto> insert (extract_name raw)
                    (case filename_to_contracts u (cf fn) of None \<Rightarrow> {} | Some s \<Rightarrow> s))"
  "dom (abis (snd (add_contract cf fn raw info u))) \<subseteq> insert (extract_name raw) (dom (abis u))"
  "filenames (snd (add_contract cf fn raw info u)) = filenames u"
  "asts (snd (add_contract cf fn raw info u)) = asts u"
  "compiler_version (snd (add_contract cf fn raw info u)) = compiler_version u"
  by (auto simp: add_contract_def Let_def split: sum.splits)


lemma add_contract_registered:
  assumes "contracts_registered u"
  shows "contracts_registered (snd (add_contract cf fn raw info u))"
proof -
  let ?u' = "snd (add_contract cf fn raw info u)"
  let ?n = "extract_name raw"
  have d: "dom (abis ?u') \<subseteq> insert ?n (dom (abis u))"
    by (rule add_contract_fields)
  have 1: "dom (abis ?u') \<subseteq> contracts_names ?u'"
    using assms d unfolding contracts_registered_def add_contract_fields(1) by blast
  have 2: "\<exists>f s. filename_to_contracts ?u' f = Some s \<and> n \<in> s" if "n \<in> dom (abis ?u')" for n
  proof (cases "n = ?n")
    case True
    then show ?thesis
      unfolding add_contract_fields(2) by (intro exI [of _ "cf fn"]) simp
  next
    case False
    with that d have "n \<in> dom (abis u)" by blast
    with assms obtain f s where fs: "filename_to_contracts u f = Some s" "n \<in> s"
      unfolding contracts_registered_def by blast
    show ?thesis
    proof (cases "f = cf fn")
      case True
      with fs show ?thesis
        unfolding add_contract_fields(2) by (intro exI [of _ "cf fn"]) simp
    next
      case False
      with fs show ?thesis
        unfolding add_contract_fields(2) by (intro exI [of _ f]) simp
    qed
  qed
  from 1 2 show ?thesis
    unfolding contracts_registered_def by blast
qed

lemma add_contracts_registered:
  "contracts_registered u \<Longrightarrow> contracts_registered (snd (add_contracts cf fn cs u))"
proof (induction cs arbitrary: u)
  case Nil
  then show ?case by simp
next
  case (Cons c cs)
  obtain name info where c: "c = (name, info)" by (cases c)
  obtain r u' where a: "add_contract cf fn name info u = (r, u')"
    by (cases "add_contract cf fn name info u")
  have "contracts_registered u'"
    using add_contract_registered [OF Cons.prems, of cf fn name info] a by simp
  with Cons.IH [of u'] a c show ?case
    by (cases r) simp_all
qed

lemma add_contracts_frame:
  "filenames (snd (add_contracts cf fn cs u)) = filenames u
   \<and> asts (snd (add_contracts cf fn cs u)) = asts u
   \<and> compiler_version (snd (add_contracts cf fn cs u)) = compiler_version u"
proof (induction cs arbitrary: u)
  case Nil
  show ?case by simp
next
  case (Cons c cs)
  obtain name info where c: "c = (name, info)" by (cases c)
  obtain r u' where a: "add_contract cf fn name info u = (r, u')"
    by (cases "add_contract cf fn name info u")
  have f: "filenames u' = filenames u" "asts u' = asts u"
    "compiler_version u' = compiler_version u"
    using add_contract_fields(4,5,6) [of cf fn name info u] a by simp_all
  with Cons.IH [of u'] a c show ?case
    by (cases r) simp_all
qed

lemma add_contract_files_registered:
  "contracts_registered u \<Longrightarrow> contracts_registered (snd (add_contract_files cf fs u))"
proof (induction fs arbitrary: u)
  case Nil
  then show ?case by simp
next
  case (Cons x fs)
  obtain fn ci where x: "x = (fn, ci)" by (cases x)
  show ?case
  proof (cases "items ci")
    case (Inl e)
    with Cons.prems x show ?thesis by simp
  next
    case (Inr cs)
    obtain r u' where a: "add_contracts cf fn cs u = (r, u')"
      by (cases "add_contracts cf fn cs u")
    have "contracts_registered u'"
      using add_contracts_registered [OF Cons.prems, of cf fn cs] a by simp
    with Cons.IH [of u'] a x Inr show ?thesis
      by (cases r) simp_all
  qed
qed

lemma add_contract_files_frame:
  "filenames (snd (add_contract_files cf fs u)) = filenames u
   \<and> asts (snd (add_contract_files cf fs u)) = asts u
   \<and> compiler_version (snd (add_contract_files cf fs u)) = compiler_version u"
proof (induction fs arbitrary: u)
  case Nil
  show ?case by simp
next
  case (Cons x fs)
  obtain fn ci where x: "x = (fn, ci)" by (cases x)
  show ?case
  proof (cases "items ci")
    case (Inl e)
    with x show ?thesis by simp
  next
    case (Inr cs)
    obtain r u' where a: "add_contracts cf fn cs u = (r, u')"
      by (cases "add_contracts cf fn cs u")
    have f: "filenames u' = filenames u" "asts u' = asts u"
      "compiler_version u' = compiler_version u"
      using add_contracts_frame [of cf fn cs u] a by simp_all
    with Cons.IH [of u'] a x Inr show ?thesis
      by (cases r) simp_all
  qed
qed

lemma contracts_section_registered:
  "contracts_registered u \<Longrightarrow> contracts_registered (snd (contracts_section cf out u))"
  by (auto simp: contracts_section_def add_contract_files_registered
      split: sum.splits bool.splits)

lemma contracts_section_frame:
  "filenames (snd (contracts_section cf out u)) = filenames u
   \<and> asts (snd (contracts_section cf out u)) = asts u
   \<and> compiler_version (snd (contracts_section cf out u)) = compiler_version u"
  by (auto simp: contracts_section_def add_contract_files_frame
      split: sum.splits bool.splits)


lemma add_source_fields:
  "filenames (fst (snd (add_source cf ab t skip p info (u, g))))
     = insert (if skip then cf t else cf p) (filenames u)"
  "snd (snd (add_source cf ab t skip p info (u, g))) = insert (if skip then cf t else cf p) g"
  "dom (asts (fst (snd (add_source cf ab t skip p info (u, g)))))
     \<subseteq> insert (ab (if skip then cf t else cf p)) (dom (asts u))"
  "(fst (snd (add_source cf ab t skip p info (u, g))))\<lparr>filenames := {}, asts := Map.empty\<rparr>
     = u\<lparr>filenames := {}, asts := Map.empty\<rparr>"
  by (auto simp: add_source_def Let_def split: sum.splits)

lemma add_source_None:
  assumes "add_source cf ab t skip p info (u, g) = (None, u', g')"
  shows "dom (asts u') = insert (ab (if skip then cf t else cf p)) (dom (asts u))"
  using assms by (auto simp: add_source_def Let_def split: sum.splits)

lemma add_source_registered:
  assumes "asts_registered ab u"
  shows "asts_registered ab (fst (snd (add_source cf ab t skip p info (u, g))))"
  using assms add_source_fields(3) [of cf ab t skip p info u g]
  unfolding asts_registered_def add_source_fields(1) by blast

lemma truncate_fields:
  assumes "u'\<lparr>filenames := {}, asts := Map.empty\<rparr> = u\<lparr>filenames := {}, asts := Map.empty\<rparr>"
  shows "contracts_names u' = contracts_names u"
    and "filename_to_contracts u' = filename_to_contracts u"
    and "abis u' = abis u"
    and "bytecodes_init u' = bytecodes_init u"
    and "bytecodes_runtime u' = bytecodes_runtime u"
    and "srcmaps_init u' = srcmaps_init u"
    and "srcmaps_runtime u' = srcmaps_runtime u"
    and "natspec u' = natspec u"
    and "compiler_version u' = compiler_version u"
    and "unique_id u' = unique_id u"
proof -
  show "contracts_names u' = contracts_names u"
    using arg_cong [OF assms, of contracts_names] by simp
  show "filename_to_contracts u' = filename_to_contracts u"
    using arg_cong [OF assms, of filename_to_contracts] by simp
  show "abis u' = abis u"
    using arg_cong [OF assms, of abis] by simp
  show "bytecodes_init u' = bytecodes_init u"
    using arg_cong [OF assms, of bytecodes_init] by simp
  show "bytecodes_runtime u' = bytecodes_runtime u"
    using arg_cong [OF assms, of bytecodes_runtime] by simp
  show "srcmaps_init u' = srcmaps_init u"
    using arg_cong [OF assms, of srcmaps_init] by simp
  show "srcmaps_runtime u' = srcmaps_runtime u"
    using arg_cong [OF assms, of srcmaps_runtime] by simp
  show "natspec u' = natspec u"
    using arg_cong [OF assms, of natspec] by simp
  show "compiler_version u' = compiler_version u"
    using arg_cong [OF assms, of compiler_version] by simp
  show "unique_id u' = unique_id u"
    using arg_cong [OF assms, of unique_id] by simp
qed

lemma contracts_registered_truncate:
  assumes "u'\<lparr>filenames := {}, asts := Map.empty\<rparr> = u\<lparr>filenames := {}, asts := Map.empty\<rparr>"
    and "contracts_registered u"
  shows "contracts_registered u'"
  using assms(2) unfolding contracts_registered_def truncate_fields(1,2,3) [OF assms(1)] .

lemma add_sources_inv:
  "asts_registered ab u \<Longrightarrow>
     asts_registered ab (fst (snd (add_sources cf ab t skip srcs (u, g))))
     \<and> (fst (snd (add_sources cf ab t skip srcs (u, g))))\<lparr>filenames := {}, asts := Map.empty\<rparr>
         = u\<lparr>filenames := {}, asts := Map.empty\<rparr>"
proof (induction srcs arbitrary: u g)
  case Nil
  then show ?case by simp
next
  case (Cons x srcs)
  obtain p info where x: "x = (p, info)" by (cases x)
  obtain r u' g' where a: "add_source cf ab t skip p info (u, g) = (r, u', g')"
    by (cases "add_source cf ab t skip p info (u, g)")
  have i: "asts_registered ab u'"
    using add_source_registered [OF Cons.prems, of cf t skip p info g] a by simp
  have f: "u'\<lparr>filenames := {}, asts := Map.empty\<rparr> = u\<lparr>filenames := {}, asts := Map.empty\<rparr>"
    using add_source_fields(4) [of cf ab t skip p info u g] a by simp
  show ?case
  proof (cases r)
    case None
    with Cons.IH [OF i, of g'] a x f show ?thesis by simp
  next
    case (Some e)
    with a x i f show ?thesis by simp
  qed
qed

lemma add_sources_None:
  "add_sources cf ab t skip srcs (u, g) = (None, u', g') \<Longrightarrow>
     filenames u' = filenames u \<union> (if skip then (if srcs = [] then {} else {cf t})
                                      else cf ` fst ` set srcs)
     \<and> g' = g \<union> (if skip then (if srcs = [] then {} else {cf t}) else cf ` fst ` set srcs)
     \<and> dom (asts u') = dom (asts u) \<union> ab ` (if skip then (if srcs = [] then {} else {cf t})
                                                else cf ` fst ` set srcs)"
proof (induction srcs arbitrary: u g)
  case Nil
  then show ?case by simp
next
  case (Cons x srcs)
  obtain p info where x: "x = (p, info)" by (cases x)
  obtain r u1 g1 where a: "add_source cf ab t skip p info (u, g) = (r, u1, g1)"
    by (cases "add_source cf ab t skip p info (u, g)")
  from Cons.prems x a have r: "r = None"
    by (cases r) simp_all
  with Cons.prems x a have rest: "add_sources cf ab t skip srcs (u1, g1) = (None, u', g')"
    by simp
  have f1: "filenames u1 = insert (if skip then cf t else cf p) (filenames u)"
    using add_source_fields(1) [of cf ab t skip p info u g] a by simp
  have g1: "g1 = insert (if skip then cf t else cf p) g"
    using add_source_fields(2) [of cf ab t skip p info u g] a by simp
  have d1: "dom (asts u1) = insert (ab (if skip then cf t else cf p)) (dom (asts u))"
    using add_source_None [of cf ab t skip p info u g u1 g1] a r by simp
  from Cons.IH [OF rest] f1 g1 d1 x show ?case
    by (cases skip; cases "srcs = []") auto
qed

lemma add_sources_total:
  "list_all (\<lambda>(p, info). \<exists>a. getitem info ''ast'' = Inr a) srcs \<Longrightarrow>
     fst (add_sources cf ab t skip srcs (u, g)) = None"
proof (induction srcs arbitrary: u g)
  case Nil
  show ?case by simp
next
  case (Cons x srcs)
  obtain p info where x: "x = (p, info)" by (cases x)
  from Cons.prems x obtain a where a: "getitem info ''ast'' = Inr a"
    by auto
  from Cons.prems have r: "list_all (\<lambda>(p, info). \<exists>a. getitem info ''ast'' = Inr a) srcs"
    by simp
  from a Cons.IH [OF r] x show ?case
    by (simp add: add_source_def Let_def)
qed

lemma sources_section_inv:
  "asts_registered ab u \<Longrightarrow>
     asts_registered ab (fst (snd (sources_section cf ab t skip out (u, g))))
     \<and> (fst (snd (sources_section cf ab t skip out (u, g))))\<lparr>filenames := {}, asts := Map.empty\<rparr>
         = u\<lparr>filenames := {}, asts := Map.empty\<rparr>"
  by (auto simp: sources_section_def add_sources_inv split: sum.splits bool.splits)

lemma asts_registered_frame:
  "asts_registered ab u \<Longrightarrow> filenames u' = filenames u \<Longrightarrow> asts u' = asts u
     \<Longrightarrow> asts_registered ab u'"
  by (simp add: asts_registered_def)

lemma parse_build_info_inv:
  assumes "contracts_registered u" and "asts_registered (absolute w) u"
  shows "contracts_registered (fst (snd (parse_build_info w wd doc (u, g))))
         \<and> asts_registered (absolute w) (fst (snd (parse_build_info w wd doc (u, g))))"
proof (cases "read_header doc")
  case (Inl e)
  with assms show ?thesis
    by (simp add: parse_build_info_def)
next
  case (Inr h)
  obtain out cv where h: "h = (out, cv)" by (cases h)
  let ?u1 = "u\<lparr>compiler_version := Some cv\<rparr>"
  obtain r u2 where c: "contracts_section (convert_filename w wd) out ?u1 = (r, u2)"
    by (cases "contracts_section (convert_filename w wd) out ?u1")
  have c1: "contracts_registered ?u1" "asts_registered (absolute w) ?u1"
    using assms by (simp_all add: contracts_registered_def asts_registered_def)
  have c2: "contracts_registered u2"
    using contracts_section_registered [OF c1(1), of "convert_filename w wd" out] c by simp
  have a2: "asts_registered (absolute w) u2"
    using contracts_section_frame [of "convert_filename w wd" out ?u1] c c1(2)
    by (simp add: asts_registered_def)
  show ?thesis
  proof (cases r)
    case (Some e)
    with Inr h c c2 a2 show ?thesis
      by (simp add: parse_build_info_def)
  next
    case None
    let ?s = "sources_section (convert_filename w wd) (absolute w) (target w)
                (skip_filename cv) out (u2, g)"
    have p: "parse_build_info w wd doc (u, g) = ?s"
      using Inr h c None by (simp add: parse_build_info_def)
    from sources_section_inv [OF a2, of "convert_filename w wd" "target w" "skip_filename cv" out g]
    have 1: "asts_registered (absolute w) (fst (snd ?s))"
      and 2: "(fst (snd ?s))\<lparr>filenames := {}, asts := Map.empty\<rparr>
                = u2\<lparr>filenames := {}, asts := Map.empty\<rparr>"
      by simp_all
    from contracts_registered_truncate [OF 2 c2] 1 show ?thesis
      unfolding p by simp
  qed
qed

lemma empty_unit_inv:
  "contracts_registered (empty_unit uid)" "asts_registered ab (empty_unit uid)"
  by (simp_all add: contracts_registered_def asts_registered_def empty_unit_def)

text \<open>
  Claim C5, as the code has it. After parsing any document into a fresh unit,
  whether the parse ends normally or with an exception, every contract name
  that is a key of \<^verbatim>\<open>abis\<close> is a member of \<^verbatim>\<open>contracts_names\<close> and of the
  set of contracts of at least one file in \<^verbatim>\<open>filename_to_contracts\<close>, and
  every key of \<^verbatim>\<open>asts\<close> is the absolute form of a member of \<^verbatim>\<open>filenames\<close>.
  The file need not be the only one whose set holds the name.
\<close>

theorem parsed_unit_registries:
  "dom (abis (fst (snd (parse_build_info w wd doc (empty_unit uid, g)))))
     \<subseteq> contracts_names (fst (snd (parse_build_info w wd doc (empty_unit uid, g))))
   \<and> (\<forall>n \<in> dom (abis (fst (snd (parse_build_info w wd doc (empty_unit uid, g))))).
         \<exists>f s. filename_to_contracts (fst (snd (parse_build_info w wd doc (empty_unit uid, g)))) f
                  = Some s \<and> n \<in> s)
   \<and> (\<forall>k \<in> dom (asts (fst (snd (parse_build_info w wd doc (empty_unit uid, g))))).
         \<exists>p \<in> filenames (fst (snd (parse_build_info w wd doc (empty_unit uid, g)))).
           absolute w p = k)"
  using parse_build_info_inv [where u = "empty_unit uid" and w = w and wd = wd and doc = doc
      and g = g, OF empty_unit_inv]
  unfolding contracts_registered_def asts_registered_def by blast


lemma read_header_minimal:
  "read_header minimal_artifact
     = Inr (JObj [(''contracts'', JObj [(''A.sol'', JObj [(''Foo'', sample_info)])])],
            \<lparr>compiler = ''solc'', version = JStr ''0.8.1'', optimized = JBool True\<rparr>)"
  by (simp add: read_header_def minimal_artifact_def)

lemma add_contract_sample:
  "add_contract cf fn ''Foo'' sample_info u =
     (None, u\<lparr>contracts_names := insert ''Foo'' (contracts_names u),
              filename_to_contracts := (filename_to_contracts u)
                 (cf fn \<mapsto> insert ''Foo''
                    (case filename_to_contracts u (cf fn) of None \<Rightarrow> {} | Some s \<Rightarrow> s)),
              abis := (abis u)(''Foo'' \<mapsto> JArr []),
              bytecodes_init := (bytecodes_init u)(''Foo'' \<mapsto> JStr ''60''),
              bytecodes_runtime := (bytecodes_runtime u)(''Foo'' \<mapsto> JStr ''61''),
              srcmaps_init := (srcmaps_init u)(''Foo'' \<mapsto> [''1:2:0'', ''3:4:0'']),
              srcmaps_runtime := (srcmaps_runtime u)(''Foo'' \<mapsto> [''5:6:0'']),
              natspec := (natspec u)(''Foo'' \<mapsto> (JObj [], JObj []))\<rparr>)"
  by (simp add: add_contract_def sample_info_def extract_name_def Let_def)

text \<open>
  Claim C2. Parsing the minimal artifact into a fresh unit ends without an
  exception; the contract names of the unit are \<open>{Foo}\<close>, the init bytecode of
  \<open>Foo\<close> is \<open>60\<close> and its init source map is the sequence \<open>1:2:0\<close>, \<open>3:4:0\<close>.
\<close>

theorem minimal_artifact_parse:
  "fst (parse_build_info w wd minimal_artifact (empty_unit uid, g)) = None
   \<and> contracts_names (fst (snd (parse_build_info w wd minimal_artifact (empty_unit uid, g))))
       = {''Foo''}
   \<and> bytecodes_init (fst (snd (parse_build_info w wd minimal_artifact (empty_unit uid, g))))
       ''Foo'' = Some (JStr ''60'')
   \<and> srcmaps_init (fst (snd (parse_build_info w wd minimal_artifact (empty_unit uid, g))))
       ''Foo'' = Some [''1:2:0'', ''3:4:0'']"
  by (simp add: parse_build_info_def read_header_minimal contracts_section_def
      sources_section_def add_contract_sample empty_unit_def)

lemma read_header_dup:
  "read_header dup_artifact
     = Inr (JObj [(''contracts'', JObj [(''A.sol'', JObj [(''Foo'', sample_info)]),
                                        (''B.sol'', JObj [(''Foo'', sample_info)])]),
                  (''sources'', JObj [(''A.sol'', JObj [(''ast'', JNull)]),
                                      (''B.sol'', JObj [(''ast'', JNull)])])],
            \<lparr>compiler = ''solc'', version = JStr ''0.8.1'', optimized = JBool True\<rparr>)"
  by (simp add: read_header_def dup_artifact_def)

lemma skip_filename_0_8_1:
  "\<not> skip_filename \<lparr>compiler = c, version = JStr ''0.8.1'', optimized = b\<rparr>"
  by (simp add: skip_filename_def legacy_versions_eq)

lemma sample_world_fields:
  "convert_filename sample_world wd name = name"
  "absolute sample_world f = ''/abs/'' @ f"
  "target sample_world = ''proj''"
  by (simp_all add: sample_world_def)

lemma parse_dup:
  "fst (parse_build_info sample_world [] dup_artifact (empty_unit ''u'', {})) = None"
  "abis (fst (snd (parse_build_info sample_world [] dup_artifact (empty_unit ''u'', {})))) ''Foo''
     = Some (JArr [])"
  "contracts_names (fst (snd (parse_build_info sample_world [] dup_artifact (empty_unit ''u'', {}))))
     = {''Foo''}"
  "filename_to_contracts
     (fst (snd (parse_build_info sample_world [] dup_artifact (empty_unit ''u'', {})))) ''A.sol''
     = Some {''Foo''}"
  "filename_to_contracts
     (fst (snd (parse_build_info sample_world [] dup_artifact (empty_unit ''u'', {})))) ''B.sol''
     = Some {''Foo''}"
  "filenames (fst (snd (parse_build_info sample_world [] dup_artifact (empty_unit ''u'', {}))))
     = {''A.sol'', ''B.sol''}"
  "asts (fst (snd (parse_build_info sample_world [] dup_artifact (empty_unit ''u'', {}))))
     ''/abs/A.sol'' = Some JNull"
  by (simp_all add: parse_build_info_def read_header_dup contracts_section_def
      sources_section_def add_contract_sample add_source_def skip_filename_0_8_1
      sample_world_fields empty_unit_def Let_def insert_commute)


theorem parsed_unit_registries_witness:
  "''Foo'' \<in> dom (abis (fst (snd (parse_build_info sample_world [] dup_artifact (empty_unit ''u'', {})))))
   \<and> ''Foo'' \<in> contracts_names
        (fst (snd (parse_build_info sample_world [] dup_artifact (empty_unit ''u'', {}))))
   \<and> filename_to_contracts
        (fst (snd (parse_build_info sample_world [] dup_artifact (empty_unit ''u'', {})))) ''A.sol''
       = Some {''Foo''}
   \<and> ''/abs/A.sol'' \<in> dom (asts
        (fst (snd (parse_build_info sample_world [] dup_artifact (empty_unit ''u'', {})))))
   \<and> ''A.sol'' \<in> filenames
        (fst (snd (parse_build_info sample_world [] dup_artifact (empty_unit ''u'', {}))))
   \<and> absolute sample_world ''A.sol'' = ''/abs/A.sol''"
  using parsed_unit_registries [of sample_world "[]" dup_artifact "''u''" "{}"] parse_dup
  by (simp add: dom_def sample_world_fields)

theorem one_file_per_contract_counterexample:
  "fst (parse_build_info sample_world [] dup_artifact (empty_unit ''u'', {})) = None
   \<and> abis (fst (snd (parse_build_info sample_world [] dup_artifact (empty_unit ''u'', {}))))
        ''Foo'' = Some (JArr [])
   \<and> filename_to_contracts
        (fst (snd (parse_build_info sample_world [] dup_artifact (empty_unit ''u'', {})))) ''A.sol''
       = Some {''Foo''}
   \<and> filename_to_contracts
        (fst (snd (parse_build_info sample_world [] dup_artifact (empty_unit ''u'', {})))) ''B.sol''
       = Some {''Foo''}
   \<and> ''A.sol'' \<noteq> ''B.sol''"
  using parse_dup by simp

subsection \<open>Documents without contracts or without sources\<close>

lemma getitem_contains: "getitem j k = Inr v \<Longrightarrow> contains k j = Inr True"
proof -
  assume a: "getitem j k = Inr v"
  then obtain kvs where j: "j = JObj kvs" and m: "map_of kvs k = Some v"
    using getitem_Inr_obj by blast
  from m have "(k, v) \<in> set kvs" by (rule map_of_SomeD)
  then have "k \<in> fst ` set kvs" by force
  with j show ?thesis by simp
qed

lemma read_header_versioned:
  "read_header (versioned_artifact l v)
     = Inr (JObj [(''sources'', JObj [(''A.sol'', JObj [(''ast'', JNull)])])],
            \<lparr>compiler = (if l = ''Solidity'' then ''solc'' else ''vyper''),
              version = JStr v, optimized = JBool True\<rparr>)"
  by (simp add: read_header_def versioned_artifact_def)

lemma read_header_bare:
  "read_header bare_artifact
     = Inr (JObj [], \<lparr>compiler = ''solc'', version = JStr ''0.8.1'', optimized = JBool True\<rparr>)"
  by (simp add: read_header_def bare_artifact_def)

lemma parse_versioned:
  "parse_build_info sample_world [] (versioned_artifact l v) (empty_unit ''u'', {})
     = (None,
        (empty_unit ''u'')
          \<lparr>compiler_version :=
             Some \<lparr>compiler = (if l = ''Solidity'' then ''solc'' else ''vyper''),
                   version = JStr v, optimized = JBool True\<rparr>,
           filenames := {if JStr v \<in> set (map JStr legacy_versions) then ''proj'' else ''A.sol''},
           asts := [''/abs/'' @ (if JStr v \<in> set (map JStr legacy_versions)
                                 then ''proj'' else ''A.sol'') \<mapsto> JNull]\<rparr>,
        {if JStr v \<in> set (map JStr legacy_versions) then ''proj'' else ''A.sol''})"
  by (simp add: parse_build_info_def read_header_versioned contracts_section_def
      sources_section_def add_source_def skip_filename_def sample_world_fields
      empty_unit_def Let_def)

lemma add_source_None_asts:
  assumes "add_source cf ab t skip p info (u, g) = (None, u', g')"
  shows "asts u' = (asts u)(ab (if skip then cf t else cf p) \<mapsto> projr (getitem info ''ast''))"
  using assms by (auto simp: add_source_def Let_def split: sum.splits)

lemma add_sources_asts:
  "add_sources cf ab t skip srcs (u, g) = (None, u', g') \<Longrightarrow>
     asts u' = asts u ++ map_of (rev (map (\<lambda>(p, info). (ab (if skip then cf t else cf p),
                                                      projr (getitem info ''ast''))) srcs))"
proof (induction srcs arbitrary: u g)
  case Nil
  then show ?case by simp
next
  case (Cons x srcs)
  obtain p info where x: "x = (p, info)" by (cases x)
  obtain r u1 g1 where a: "add_source cf ab t skip p info (u, g) = (r, u1, g1)"
    by (cases "add_source cf ab t skip p info (u, g)")
  from Cons.prems x a have r: "r = None"
    by (cases r) simp_all
  with Cons.prems x a have rest: "add_sources cf ab t skip srcs (u1, g1) = (None, u', g')"
    by simp
  have a1: "asts u1 = (asts u)(ab (if skip then cf t else cf p) \<mapsto> projr (getitem info ''ast''))"
    using add_source_None_asts [of cf ab t skip p info u g u1 g1] a r by simp
  let ?k = "ab (if skip then cf t else cf p)"
  let ?a = "projr (getitem info ''ast'')"
  let ?F = "\<lambda>(p, info). (ab (if skip then cf t else cf p), projr (getitem info ''ast''))"
  let ?M = "map_of (rev (map ?F srcs))"
  have e: "map_of (rev (map ?F (x # srcs))) = [?k \<mapsto> ?a] ++ ?M"
    unfolding x by (simp add: map_of_append)
  have "asts u' = asts u1 ++ ?M"
    by (rule Cons.IH [OF rest])
  then have "asts u' = (asts u)(?k \<mapsto> ?a) ++ ?M"
    by (simp only: a1)
  moreover have "(asts u)(?k \<mapsto> ?a) ++ ?M = asts u ++ ([?k \<mapsto> ?a] ++ ?M)"
    by (rule ext) (simp add: map_add_def split: option.splits)
  ultimately show ?case
    by (simp only: e)
qed


text \<open>
  Claim C6. Take a document whose head reads well. When its output has neither
  \<^verbatim>\<open>contracts\<close> nor \<^verbatim>\<open>sources\<close>, the parse ends without an exception and the
  unit is the fresh one with its compiler version set: every registry is
  empty. When the output has no \<^verbatim>\<open>contracts\<close> and its \<^verbatim>\<open>sources\<close> is an
  object whose entries all hold an \<^verbatim>\<open>ast\<close>, the parse ends without an
  exception, the filenames of the unit are the identities of the sources (of
  the target, for the old compilers), the ASTs map the absolute form of each
  identity to the \<^verbatim>\<open>ast\<close> of its source (of the last such source, when two
  share the form), and every contract registry is empty. When the output has
  no \<^verbatim>\<open>sources\<close> and the contracts are read without an exception, the parse
  ends without an exception with the unit as the contracts left it, its
  filenames and ASTs empty.
\<close>

theorem missing_sections_tolerated:
  assumes "read_header doc = Inr (out, cv)"
  shows "(contains ''contracts'' out = Inr False \<and> contains ''sources'' out = Inr False
            \<longrightarrow> parse_build_info w wd doc (empty_unit uid, g)
                  = (None, (empty_unit uid)\<lparr>compiler_version := Some cv\<rparr>, g))
       \<and> (contains ''contracts'' out = Inr False
          \<and> getitem out ''sources'' = Inr (JObj srcs)
          \<and> list_all (\<lambda>(p, info). \<exists>a. getitem info ''ast'' = Inr a) srcs
            \<longrightarrow> (\<exists>u' g'. parse_build_info w wd doc (empty_unit uid, g) = (None, u', g')
                  \<and> filenames u' = (if skip_filename cv
                                     then (if srcs = [] then {} else {convert_filename w wd (target w)})
                                     else convert_filename w wd ` fst ` set srcs)
                  \<and> asts u' = map_of (rev (map (\<lambda>(p, info).
                                   (absolute w (if skip_filename cv
                                                then convert_filename w wd (target w)
                                                else convert_filename w wd p),
                                    projr (getitem info ''ast''))) srcs))
                  \<and> dom (asts u') = absolute w ` filenames u'
                  \<and> contracts_names u' = {}
                  \<and> filename_to_contracts u' = Map.empty
                  \<and> abis u' = Map.empty
                  \<and> bytecodes_init u' = Map.empty
                  \<and> bytecodes_runtime u' = Map.empty
                  \<and> srcmaps_init u' = Map.empty
                  \<and> srcmaps_runtime u' = Map.empty
                  \<and> natspec u' = Map.empty))
       \<and> (contains ''sources'' out = Inr False
          \<and> contracts_section (convert_filename w wd) out
                ((empty_unit uid)\<lparr>compiler_version := Some cv\<rparr>) = (None, u2)
            \<longrightarrow> parse_build_info w wd doc (empty_unit uid, g) = (None, u2, g)
                \<and> filenames u2 = {} \<and> asts u2 = Map.empty)"
proof -
  let ?u1 = "(empty_unit uid :: 'a CompilationUnit)\<lparr>compiler_version := Some cv\<rparr>"
  let ?cf = "convert_filename w wd"
  have p: "parse_build_info w wd doc (empty_unit uid, g)
             = sources_section ?cf (absolute w) (target w) (skip_filename cv) out (?u1, g)"
    if "contains ''contracts'' out = Inr False"
  proof -
    have "contracts_section ?cf out ?u1 = (None, ?u1)"
      using that by (simp add: contracts_section_def)
    with assms show ?thesis
      by (simp add: parse_build_info_def)
  qed
  have A: "parse_build_info w wd doc (empty_unit uid, g) = (None, ?u1, g)"
    if "contains ''contracts'' out = Inr False" "contains ''sources'' out = Inr False"
    unfolding p [OF that(1)] using that(2) by (simp add: sources_section_def)
  have B: "\<exists>u' g'. parse_build_info w wd doc (empty_unit uid, g) = (None, u', g')
                  \<and> filenames u' = (if skip_filename cv
                                     then (if srcs = [] then {} else {?cf (target w)})
                                     else ?cf ` fst ` set srcs)
                  \<and> asts u' = map_of (rev (map (\<lambda>(p, info).
                                   (absolute w (if skip_filename cv then ?cf (target w) else ?cf p),
                                    projr (getitem info ''ast''))) srcs))
                  \<and> dom (asts u') = absolute w ` filenames u'
                  \<and> contracts_names u' = {}
                  \<and> filename_to_contracts u' = Map.empty
                  \<and> abis u' = Map.empty
                  \<and> bytecodes_init u' = Map.empty
                  \<and> bytecodes_runtime u' = Map.empty
                  \<and> srcmaps_init u' = Map.empty
                  \<and> srcmaps_runtime u' = Map.empty
                  \<and> natspec u' = Map.empty"
    if c: "contains ''contracts'' out = Inr False"
      and s: "getitem out ''sources'' = Inr (JObj srcs)"
      and l: "list_all (\<lambda>(p, info). \<exists>a. getitem info ''ast'' = Inr a) srcs"
  proof -
    let ?r = "add_sources ?cf (absolute w) (target w) (skip_filename cv) srcs (?u1, g)"
    have q: "parse_build_info w wd doc (empty_unit uid, g) = ?r"
      unfolding p [OF c] using s getitem_contains [OF s] by (simp add: sources_section_def)
    obtain r u' g' where res: "?r = (r, u', g')"
      by (cases ?r)
    have "r = None"
      using add_sources_total [OF l, of ?cf "absolute w" "target w" "skip_filename cv" ?u1 g] res
      by simp
    with res have ok: "?r = (None, u', g')" by simp
    note n = add_sources_None [OF ok]
    have tr: "u'\<lparr>filenames := {}, asts := Map.empty\<rparr> = ?u1\<lparr>filenames := {}, asts := Map.empty\<rparr>"
      using add_sources_inv [of "absolute w" ?u1 ?cf "target w" "skip_filename cv" srcs g] ok
      by (simp add: asts_registered_def empty_unit_def)
    note t = truncate_fields [OF tr]
    have f: "filenames u' = (if skip_filename cv
                                     then (if srcs = [] then {} else {?cf (target w)})
                                     else ?cf ` fst ` set srcs)"
      using n by (simp add: empty_unit_def)
    have v: "asts u' = map_of (rev (map (\<lambda>(p, info).
                                   (absolute w (if skip_filename cv then ?cf (target w) else ?cf p),
                                    projr (getitem info ''ast''))) srcs))"
      using add_sources_asts [OF ok] by (simp add: empty_unit_def)
    have d: "dom (asts u') = absolute w ` filenames u'"
      using n by (simp add: empty_unit_def)
    have e: "contracts_names u' = {}" "filename_to_contracts u' = Map.empty"
      "abis u' = Map.empty" "bytecodes_init u' = Map.empty" "bytecodes_runtime u' = Map.empty"
      "srcmaps_init u' = Map.empty" "srcmaps_runtime u' = Map.empty" "natspec u' = Map.empty"
      unfolding t by (simp_all add: empty_unit_def)
    from q ok f v d e show ?thesis
      by simp
  qed
  have C: "parse_build_info w wd doc (empty_unit uid, g) = (None, u2, g)
             \<and> filenames u2 = {} \<and> asts u2 = Map.empty"
    if s: "contains ''sources'' out = Inr False"
      and c: "contracts_section ?cf out ?u1 = (None, u2)"
  proof -
    have "parse_build_info w wd doc (empty_unit uid, g) = (None, u2, g)"
      using assms c s by (simp add: parse_build_info_def sources_section_def)
    moreover have "filenames u2 = {}" "asts u2 = Map.empty"
      using contracts_section_frame [of ?cf out ?u1] c by (simp_all add: empty_unit_def)
    ultimately show ?thesis by simp
  qed
  from A B C show ?thesis
    by blast
qed

lemma read_header_sources_only:
  "read_header sources_only_artifact
     = Inr (JObj [(''sources'', JObj
                     [(''A.sol'', JObj [(''ast'', JObj [(''id'', JInt 1)])]),
                      (''B.sol'', JObj [(''ast'', JObj [(''id'', JInt 2)])])])],
            \<lparr>compiler = ''solc'', version = JStr ''0.8.1'', optimized = JBool True\<rparr>)"
  by (simp add: read_header_def sources_only_artifact_def)

lemma contracts_section_minimal:
  "contracts_section cf (JObj [(''contracts'', JObj [(''A.sol'', JObj [(''Foo'', sample_info)])])]) u
     = (None, snd (add_contract cf ''A.sol'' ''Foo'' sample_info u))"
  by (simp add: contracts_section_def add_contract_sample)

theorem missing_sections_tolerated_witness:
  "parse_build_info sample_world [] bare_artifact (empty_unit ''u'', {})
       = (None, (empty_unit ''u'')\<lparr>compiler_version :=
                   Some \<lparr>compiler = ''solc'', version = JStr ''0.8.1'', optimized = JBool True\<rparr>\<rparr>,
          {})
   \<and> fst (parse_build_info sample_world [] sources_only_artifact (empty_unit ''u'', {})) = None
   \<and> filenames (fst (snd (parse_build_info sample_world [] sources_only_artifact
        (empty_unit ''u'', {})))) = {''A.sol'', ''B.sol''}
   \<and> asts (fst (snd (parse_build_info sample_world [] sources_only_artifact
        (empty_unit ''u'', {})))) ''/abs/A.sol'' = Some (JObj [(''id'', JInt 1)])
   \<and> asts (fst (snd (parse_build_info sample_world [] sources_only_artifact
        (empty_unit ''u'', {})))) ''/abs/B.sol'' = Some (JObj [(''id'', JInt 2)])
   \<and> abis (fst (snd (parse_build_info sample_world [] sources_only_artifact
        (empty_unit ''u'', {})))) = Map.empty
   \<and> fst (parse_build_info sample_world [] minimal_artifact (empty_unit ''u'', {})) = None
   \<and> abis (fst (snd (parse_build_info sample_world [] minimal_artifact (empty_unit ''u'', {}))))
        ''Foo'' = Some (JArr [])
   \<and> filenames (fst (snd (parse_build_info sample_world [] minimal_artifact
        (empty_unit ''u'', {})))) = {}"
proof -
  let ?cv = "\<lparr>compiler = ''solc'', version = JStr ''0.8.1'', optimized = JBool True\<rparr>"
  let ?srcs = "[(''A.sol'', JObj [(''ast'', JObj [(''id'', JInt 1)])]),
                (''B.sol'', JObj [(''ast'', JObj [(''id'', JInt 2)])])]"
  let ?out = "JObj [(''sources'', JObj ?srcs)]"
  let ?outc = "JObj [(''contracts'', JObj [(''A.sol'', JObj [(''Foo'', sample_info)])])]"
  let ?u1 = "(empty_unit ''u'' :: string CompilationUnit)\<lparr>compiler_version := Some ?cv\<rparr>"
  have c0: "contains ''contracts'' (JObj []) = Inr False" "contains ''sources'' (JObj []) = Inr False"
    by simp_all
  from missing_sections_tolerated [OF read_header_bare, where w = sample_world and wd = "[]"
      and uid = "''u''" and g = "{}"] c0
  have 1: "parse_build_info sample_world [] bare_artifact (empty_unit ''u'', {})
       = (None, (empty_unit ''u'')\<lparr>compiler_version := Some ?cv\<rparr>, {})"
    by blast
  have c1: "contains ''contracts'' ?out = Inr False"
    by simp
  have g1: "getitem ?out ''sources'' = Inr (JObj ?srcs)"
    by simp
  have l1: "list_all (\<lambda>(p, info). \<exists>a. getitem info ''ast'' = Inr a) ?srcs"
    by simp
  from missing_sections_tolerated [OF read_header_sources_only, where srcs = ?srcs
      and w = sample_world and wd = "[]" and uid = "''u''" and g = "{}"] c1 g1 l1
  obtain u' g' where
    p2: "parse_build_info sample_world [] sources_only_artifact (empty_unit ''u'', {}) = (None, u', g')"
    and f2: "filenames u' = (if skip_filename ?cv
                             then (if ?srcs = [] then {} else {convert_filename sample_world [] (target sample_world)})
                             else convert_filename sample_world [] ` fst ` set ?srcs)"
    and a2: "asts u' = map_of (rev (map (\<lambda>(p, info).
                                   (absolute sample_world (if skip_filename ?cv
                                                then convert_filename sample_world [] (target sample_world)
                                                else convert_filename sample_world [] p),
                                    projr (getitem info ''ast''))) ?srcs))"
    and b2: "abis u' = Map.empty"
    by blast
  have 2: "fst (parse_build_info sample_world [] sources_only_artifact (empty_unit ''u'', {})) = None"
    unfolding p2 by simp
  have 3: "filenames (fst (snd (parse_build_info sample_world [] sources_only_artifact
        (empty_unit ''u'', {})))) = {''A.sol'', ''B.sol''}"
    unfolding p2 using f2 by (simp add: skip_filename_0_8_1 sample_world_fields)
  have 4: "asts (fst (snd (parse_build_info sample_world [] sources_only_artifact
        (empty_unit ''u'', {})))) ''/abs/A.sol'' = Some (JObj [(''id'', JInt 1)])"
    unfolding p2 using a2 by (simp add: skip_filename_0_8_1 sample_world_fields)
  have 5: "asts (fst (snd (parse_build_info sample_world [] sources_only_artifact
        (empty_unit ''u'', {})))) ''/abs/B.sol'' = Some (JObj [(''id'', JInt 2)])"
    unfolding p2 using a2 by (simp add: skip_filename_0_8_1 sample_world_fields)
  have 6: "abis (fst (snd (parse_build_info sample_world [] sources_only_artifact
        (empty_unit ''u'', {})))) = Map.empty"
    unfolding p2 using b2 by simp
  have s3: "contains ''sources'' ?outc = Inr False"
    by simp
  have c3: "contracts_section (convert_filename sample_world []) ?outc ?u1
              = (None, snd (add_contract (convert_filename sample_world []) ''A.sol'' ''Foo''
                              sample_info ?u1))"
    by (rule contracts_section_minimal)
  from missing_sections_tolerated [OF read_header_minimal, where w = sample_world and wd = "[]"
      and uid = "''u''" and g = "{}"
      and ?u2.0 = "snd (add_contract (convert_filename sample_world []) ''A.sol'' ''Foo''
                              sample_info ?u1)"] s3 c3
  have p3: "parse_build_info sample_world [] minimal_artifact (empty_unit ''u'', {})
              = (None, snd (add_contract (convert_filename sample_world []) ''A.sol'' ''Foo''
                              sample_info ?u1), {})"
    and f3: "filenames (snd (add_contract (convert_filename sample_world []) ''A.sol'' ''Foo''
                              sample_info ?u1)) = {}"
    by blast+
  have 7: "fst (parse_build_info sample_world [] minimal_artifact (empty_unit ''u'', {})) = None"
    unfolding p3 by simp
  have 8: "abis (fst (snd (parse_build_info sample_world [] minimal_artifact (empty_unit ''u'', {}))))
        ''Foo'' = Some (JArr [])"
    unfolding p3 by (simp add: add_contract_sample)
  have 9: "filenames (fst (snd (parse_build_info sample_world [] minimal_artifact
        (empty_unit ''u'', {})))) = {}"
    unfolding p3 using f3 by simp
  show ?thesis
    by (intro conjI 1 2 3 4 5 6 7 8 9)
qed


subsection \<open>The substitution of the target for the paths of old compilers\<close>

text \<open>
  Claim C1, as the code has it. The substitution depends on the version alone:
  it is applied exactly when the version is one of the strings \<open>0.4.0\<close> to
  \<open>0.4.9\<close>, whatever the compiler family. When a document with sources is
  parsed without an exception, then under the substitution the filenames added
  to the unit are the identity of the target alone (none when there is no
  source), and otherwise they are the identities of the paths listed under
  \<^verbatim>\<open>sources\<close>.
\<close>

theorem legacy_path_substitution:
  assumes "read_header doc = Inr (out, cv)"
    and "getitem out ''sources'' = Inr (JObj srcs)"
    and "parse_build_info w wd doc (u, g) = (None, u', g')"
  shows "(skip_filename cv \<longleftrightarrow>
            version cv \<in> JStr ` {''0.4.0'', ''0.4.1'', ''0.4.2'', ''0.4.3'', ''0.4.4'',
                                 ''0.4.5'', ''0.4.6'', ''0.4.7'', ''0.4.8'', ''0.4.9''})
       \<and> (skip_filename cv \<longrightarrow>
            filenames u' = filenames u
                             \<union> (if srcs = [] then {} else {convert_filename w wd (target w)}))
       \<and> (\<not> skip_filename cv \<longrightarrow>
            filenames u' = filenames u \<union> convert_filename w wd ` fst ` set srcs)"
proof -
  let ?u1 = "u\<lparr>compiler_version := Some cv\<rparr>"
  let ?cf = "convert_filename w wd"
  obtain r u2 where c: "contracts_section ?cf out ?u1 = (r, u2)"
    by (cases "contracts_section ?cf out ?u1")
  have r: "r = None"
    using assms(1,3) c by (cases r) (simp_all add: parse_build_info_def)
  have f2: "filenames u2 = filenames u"
    using contracts_section_frame [of ?cf out ?u1] c by simp
  have "sources_section ?cf (absolute w) (target w) (skip_filename cv) out (u2, g) = (None, u', g')"
    using assms(1,3) c r by (simp add: parse_build_info_def)
  then have "add_sources ?cf (absolute w) (target w) (skip_filename cv) srcs (u2, g) = (None, u', g')"
    using assms(2) getitem_contains [OF assms(2)] by (simp add: sources_section_def)
  from add_sources_None [OF this] f2
  have f: "filenames u' = filenames u \<union> (if skip_filename cv
                                           then (if srcs = [] then {} else {?cf (target w)})
                                           else ?cf ` fst ` set srcs)"
    by simp
  have s: "skip_filename cv \<longleftrightarrow>
            version cv \<in> JStr ` {''0.4.0'', ''0.4.1'', ''0.4.2'', ''0.4.3'', ''0.4.4'',
                                 ''0.4.5'', ''0.4.6'', ''0.4.7'', ''0.4.8'', ''0.4.9''}"
    unfolding skip_filename_def legacy_versions_eq by simp
  from f s show ?thesis
    by simp
qed

theorem legacy_path_substitution_witness:
  "filenames (fst (snd (parse_build_info sample_world [] (versioned_artifact ''Solidity'' ''0.4.5'')
            (empty_unit ''u'', {})))) = {''proj''}
   \<and> filenames (fst (snd (parse_build_info sample_world [] (versioned_artifact ''Solidity'' ''0.4.10'')
            (empty_unit ''u'', {})))) = {''A.sol''}
   \<and> convert_filename sample_world [] (target sample_world) = ''proj''
   \<and> convert_filename sample_world [] ''A.sol'' = ''A.sol''"
proof -
  let ?out = "JObj [(''sources'', JObj [(''A.sol'', JObj [(''ast'', JNull)])])]"
  have g: "getitem ?out ''sources'' = Inr (JObj [(''A.sol'', JObj [(''ast'', JNull)])])"
    by simp
  have a: "JStr ''0.4.5'' \<in> set (map JStr legacy_versions)"
    by (simp add: legacy_versions_eq)
  have b: "JStr ''0.4.10'' \<notin> set (map JStr legacy_versions)"
    by (simp add: legacy_versions_eq)
  note p1 = parse_versioned [of "''Solidity''" "''0.4.5''"]
  note p2 = parse_versioned [of "''Solidity''" "''0.4.10''"]
  from legacy_path_substitution [OF read_header_versioned g p1] a
  have 1: "filenames (fst (snd (parse_build_info sample_world [] (versioned_artifact ''Solidity'' ''0.4.5'')
            (empty_unit ''u'', {})))) = {''proj''}"
    unfolding p1 by (simp add: skip_filename_def sample_world_fields empty_unit_def)
  from legacy_path_substitution [OF read_header_versioned g p2] b
  have 2: "filenames (fst (snd (parse_build_info sample_world [] (versioned_artifact ''Solidity'' ''0.4.10'')
            (empty_unit ''u'', {})))) = {''A.sol''}"
    unfolding p2 by (simp add: skip_filename_def sample_world_fields empty_unit_def)
  from 1 2 show ?thesis
    by (simp add: sample_world_fields)
qed

theorem legacy_quirk_vyper_counterexample:
  "compiler_version (fst (snd (parse_build_info sample_world [] (versioned_artifact ''Vyper'' ''0.4.0'')
            (empty_unit ''u'', {}))))
     = Some \<lparr>compiler = ''vyper'', version = JStr ''0.4.0'', optimized = JBool True\<rparr>
   \<and> filenames (fst (snd (parse_build_info sample_world [] (versioned_artifact ''Vyper'' ''0.4.0'')
            (empty_unit ''u'', {})))) = {''proj''}
   \<and> convert_filename sample_world [] ''A.sol'' = ''A.sol''
   \<and> ''A.sol'' \<noteq> ''proj''"
  by (simp add: parse_versioned legacy_versions_eq sample_world_fields)

subsection \<open>A build-info file that cannot be read\<close>

lemma new_CompilationUnit_Inr:
  assumes "new_CompilationUnit cc uid = Inr (u, cc1)"
  shows "u = empty_unit uid"
    and "cc1 = cc\<lparr>compilation_units := (compilation_units cc)(uid \<mapsto> empty_unit uid)\<rparr>"
  using assms by (auto simp: new_CompilationUnit_def split: option.splits)

lemma compile_file_load_error:
  assumes "new_CompilationUnit cc (uniq_id file) = Inr (u, cc1)"
    and "json_load fs (bd @ [file]) = Inl e"
  shows "compile_file w fs bd wd file cc = (Some e, cc1)"
  using assms by (simp add: compile_file_def)

lemma compile_file_header_error:
  assumes "new_CompilationUnit cc (uniq_id file) = Inr (u, cc1)"
    and "json_load fs (bd @ [file]) = Inr doc"
    and "read_header doc = Inl e"
  shows "compile_file w fs bd wd file cc = (Some e, cc1)"
proof -
  note n = new_CompilationUnit_Inr [OF assms(1)]
  have "parse_build_info w wd doc (u, all_filenames cc1) = (Some e, u, all_filenames cc1)"
    using assms(3) by (simp add: parse_build_info_def)
  then have "compile_file w fs bd wd file cc
               = (Some e, cc1\<lparr>all_filenames := all_filenames cc1,
                               compilation_units := (compilation_units cc1)(uniq_id file \<mapsto> u)\<rparr>)"
    using assms(1,2) by (simp add: compile_file_def)
  also have "cc1\<lparr>all_filenames := all_filenames cc1,
                 compilation_units := (compilation_units cc1)(uniq_id file \<mapsto> u)\<rparr> = cc1"
    unfolding n by simp
  finally show ?thesis .
qed

lemma read_header_missing:
  "map_of kvs ''output'' = None \<Longrightarrow> read_header (JObj kvs) = Inl (KeyError ''output'')"
  "map_of kvs ''output'' \<noteq> None \<Longrightarrow> map_of kvs ''solcVersion'' = None
     \<Longrightarrow> read_header (JObj kvs) = Inl (KeyError ''solcVersion'')"
  "map_of kvs ''output'' \<noteq> None \<Longrightarrow> map_of kvs ''solcVersion'' \<noteq> None
     \<Longrightarrow> map_of kvs ''input'' = None
     \<Longrightarrow> read_header (JObj kvs) = Inl (KeyError ''input'')"
  by (auto simp: read_header_def)

lemma compile_files_append:
  "compile_files w fs bd wd (xs @ ys) cc =
     (case compile_files w fs bd wd xs cc of
        (Some e, cc') \<Rightarrow> (Some e, cc')
      | (None, cc') \<Rightarrow> compile_files w fs bd wd ys cc')"
proof (induction xs arbitrary: cc)
  case Nil
  show ?case by simp
next
  case (Cons x xs)
  obtain r cc1 where c: "compile_file w fs bd wd x cc = (r, cc1)"
    by (cases "compile_file w fs bd wd x cc")
  show ?case
    using Cons.IH [of cc1] c by (cases r) simp_all
qed

lemma compile_files_abort:
  assumes "compile_files w fs bd wd pre cc = (None, cc')"
    and "compile_file w fs bd wd file cc' = (Some e, cc1)"
  shows "compile_files w fs bd wd (pre @ file # rest) cc = (Some e, cc1)"
  using assms by (simp add: compile_files_append)

lemma compile_located:
  assumes "compile_setup w kwargs fs0 = Inr (bd, wd, fs)"
    and "locate fs bd = Inr (pre @ file # rest)"
  shows "compile w kwargs fs0 cc = compile_files w fs bd wd (pre @ file # rest) cc"
  using assms by (simp add: compile_def)

text \<open>
  Claim C9, as the code has it. Take a run of \<^verbatim>\<open>compile\<close> that has found its
  files, has read the files before \<open>file\<close> without an exception, and has
  registered the unit of \<open>file\<close>. When \<open>file\<close> cannot be opened or decoded,
  the run ends with the exception of \<^verbatim>\<open>open\<close> or \<^verbatim>\<open>json.load\<close>
  (\<^verbatim>\<open>ValueError\<close> for a file that is not valid JSON); when it decodes to an
  object without \<^verbatim>\<open>output\<close>, \<^verbatim>\<open>solcVersion\<close> or \<^verbatim>\<open>input\<close>, the run ends
  with the \<^verbatim>\<open>KeyError\<close> of the first of these keys that is missing. No later
  file is read, and the \<^verbatim>\<open>CryticCompile\<close> object holds the units registered
  so far, the last of them empty. The exceptions are those of the lookups
  themselves; there is no \<^verbatim>\<open>MalformedArtifact\<close>.
\<close>

theorem malformed_artifact_aborts:
  assumes "compile_setup w kwargs fs0 = Inr (bd, wd, fs)"
    and "locate fs bd = Inr (pre @ file # rest)"
    and "compile_files w fs bd wd pre cc = (None, cc')"
    and "new_CompilationUnit cc' (uniq_id file) = Inr (u, cc1)"
  shows "(json_load fs (bd @ [file]) = Inl e
            \<longrightarrow> compile w kwargs fs0 cc = (Some e, cc1))
       \<and> (json_load fs (bd @ [file]) = Inr (JObj kvs) \<and> map_of kvs ''output'' = None
            \<longrightarrow> compile w kwargs fs0 cc = (Some (KeyError ''output''), cc1))
       \<and> (json_load fs (bd @ [file]) = Inr (JObj kvs) \<and> map_of kvs ''output'' \<noteq> None
          \<and> map_of kvs ''solcVersion'' = None
            \<longrightarrow> compile w kwargs fs0 cc = (Some (KeyError ''solcVersion''), cc1))
       \<and> (json_load fs (bd @ [file]) = Inr (JObj kvs) \<and> map_of kvs ''output'' \<noteq> None
          \<and> map_of kvs ''solcVersion'' \<noteq> None \<and> map_of kvs ''input'' = None
            \<longrightarrow> compile w kwargs fs0 cc = (Some (KeyError ''input''), cc1))"
proof -
  note loc = compile_located [OF assms(1,2), of cc]
  have A: "compile w kwargs fs0 cc = (Some e, cc1)"
    if "json_load fs (bd @ [file]) = Inl e"
    unfolding loc
    using compile_files_abort [OF assms(3) compile_file_load_error [OF assms(4) that]] .
  have B: "compile w kwargs fs0 cc = (Some x, cc1)"
    if "json_load fs (bd @ [file]) = Inr (JObj kvs)" "read_header (JObj kvs) = Inl x" for x
    unfolding loc
    using compile_files_abort [OF assms(3) compile_file_header_error [OF assms(4) that]] .
  from A B read_header_missing [of kvs] show ?thesis
    by blast
qed

lemma uniq_id_b: "uniq_id ''b.json'' = ''b''"
  by (simp add: uniq_id_def)

lemma uniq_id_a: "uniq_id ''a.json'' = ''a''"
  by (simp add: uniq_id_def)

lemma new_unit_empty:
  "new_CompilationUnit empty_crytic_compile uid
     = Inr (empty_unit uid,
            \<lparr>all_filenames = {}, compilation_units = [uid \<mapsto> empty_unit uid]\<rparr>)"
  by (simp add: new_CompilationUnit_def empty_crytic_compile_def)

lemma parse_minimal_result:
  "fst (parse_build_info w wd minimal_artifact (u, g)) = None"
  "snd (snd (parse_build_info w wd minimal_artifact (u, g))) = g"
  by (simp_all add: parse_build_info_def read_header_minimal contracts_section_def
      sources_section_def add_contract_sample)

lemma late_broken_locate:
  "locate late_broken_fs [''proj'', ''proj'', ''artifacts'', ''build-info'']
     = Inr ([''a.json''] @ ''b.json'' # [])"
  by (simp add: locate_def late_broken_fs_def endswith_def)

theorem malformed_artifact_aborts_witness:
  "locate late_broken_fs [''proj'', ''proj'', ''artifacts'', ''build-info'']
     = Inr ([''a.json''] @ ''b.json'' # [])
   \<and> json_load late_broken_fs [''proj'', ''proj'', ''artifacts'', ''build-info'', ''b.json'']
       = Inl ValueError
   \<and> fst (compile_files sample_world late_broken_fs
            [''proj'', ''proj'', ''artifacts'', ''build-info''] [''proj'', ''proj'']
            [''a.json''] empty_crytic_compile) = None
   \<and> fst (compile sample_world Map.empty late_broken_fs empty_crytic_compile) = Some ValueError
   \<and> compilation_units (snd (compile sample_world Map.empty late_broken_fs empty_crytic_compile))
        ''b'' = Some (empty_unit ''b'')"
proof -
  let ?bd = "[''proj'', ''proj'', ''artifacts'', ''build-info'']"
  let ?wd = "[''proj'', ''proj'']"
  let ?ua = "fst (snd (parse_build_info sample_world ?wd minimal_artifact (empty_unit ''a'', {})))"
  let ?cc' = "\<lparr>all_filenames = {}, compilation_units = [''a'' \<mapsto> ?ua]\<rparr>"
  let ?cc1 = "\<lparr>all_filenames = {}, compilation_units = [''a'' \<mapsto> ?ua, ''b'' \<mapsto> empty_unit ''b'']\<rparr>"
  have la: "json_load late_broken_fs (?bd @ [''a.json'']) = Inr minimal_artifact"
    by (simp add: late_broken_fs_def)
  have lb: "json_load late_broken_fs (?bd @ [''b.json'']) = Inl ValueError"
    by (simp add: late_broken_fs_def)
  have pre: "compile_files sample_world late_broken_fs ?bd ?wd [''a.json''] empty_crytic_compile
               = (None, ?cc')"
    using la
    by (simp add: compile_file_def uniq_id_a new_unit_empty case_prod_beta parse_minimal_result)
  have nb: "new_CompilationUnit ?cc' (uniq_id ''b.json'') = Inr (empty_unit ''b'', ?cc1)"
    by (simp add: new_CompilationUnit_def uniq_id_b)
  from malformed_artifact_aborts [OF sample_setup_any late_broken_locate pre nb,
      where e = ValueError] lb
  have r: "compile sample_world Map.empty late_broken_fs empty_crytic_compile
             = (Some ValueError, ?cc1)"
    by blast
  have 1: "fst (compile_files sample_world late_broken_fs ?bd ?wd [''a.json'']
             empty_crytic_compile) = None"
    unfolding pre by simp
  have 2: "fst (compile sample_world Map.empty late_broken_fs empty_crytic_compile)
             = Some ValueError"
    unfolding r by simp
  have 3: "compilation_units (snd (compile sample_world Map.empty late_broken_fs
             empty_crytic_compile)) ''b'' = Some (empty_unit ''b'')"
    unfolding r by simp
  from lb have lb': "json_load late_broken_fs
      [''proj'', ''proj'', ''artifacts'', ''build-info'', ''b.json''] = Inl ValueError"
    by simp
  show ?thesis
    by (intro conjI late_broken_locate lb' 1 2 3)
qed

theorem malformed_artifact_counterexample:
  "fst (compile_files sample_world sample_fs [''bd''] [] [''b.json'']
          (empty_crytic_compile :: string CryticCompile)) = Some ValueError
   \<and> fst (compile_files sample_world headless_fs [''bd''] [] [''a.json'']
          (empty_crytic_compile :: string CryticCompile)) = Some (KeyError ''output'')
   \<and> fst (parse_build_info sample_world []
            (JObj [(''output'', JObj []), (''solcVersion'', JStr ''0.8.1'')])
            (empty_unit ''u'', {})) = Some (KeyError ''input'')"
  by (simp add: compile_file_def uniq_id_a uniq_id_b new_unit_empty sample_fs_def headless_fs_def
      parse_build_info_def read_header_def)

end
